theory Spec2Isabelle
  imports Complex_Main "HOL-Library.Sublist" "HOL-Library.Word" "HOL-Library.Signed_Division"
    "HOL-Library.Log_Nat"
begin

section \<open>Strings\<close>

text \<open>
  Go strings are byte sequences; they are modelled as \<open>string\<close> (a \<open>char list\<close>).
  \<^verbatim>\<open>strings.HasSuffix\<close> and \<^verbatim>\<open>strings.TrimSuffix\<close> of the Go library:
  \<^verbatim>\<open>
  func HasSuffix(s, suffix string) bool {
      return len(s) >= len(suffix) && s[len(s)-len(suffix):] == suffix
  }
  func TrimSuffix(s, suffix string) string {
      if HasSuffix(s, suffix) { return s[:len(s)-len(suffix)] }
      return s
  }
  \<close>
\<close>

definition HasSuffix :: "string \<Rightarrow> string \<Rightarrow> bool" where
  "HasSuffix s suff \<longleftrightarrow>
     length suff \<le> length s \<and> drop (length s - length suff) s = suff"

definition TrimSuffix :: "string \<Rightarrow> string \<Rightarrow> string" where
  "TrimSuffix s suff = (if HasSuffix s suff then take (length s - length suff) s else s)"

section \<open>Name normalisation\<close>

text \<open>
  Modelled from the spec: \<^verbatim>\<open>unFQDN\<close> is called by \<^verbatim>\<open>normalizeRecordName\<close> but is
  declared in a file of the repository that is not among the sources at hand. The
  specification describes it as "Strip a single trailing "." from name if present
  (un-FQDN)".
\<close>

definition unFQDN :: "string \<Rightarrow> string" where
  "unFQDN fqdn = (if fqdn \<noteq> [] \<and> last fqdn = CHR ''.'' then butlast fqdn else fqdn)"

text \<open>
  \<^verbatim>\<open>normalizeRecordName\<close>, the same text in both packages (client.go of the Vercel
  package, lines 161-167, and the Hetzner client, lines 231-237).
\<close>

definition normalizeRecordName :: "string \<Rightarrow> string \<Rightarrow> string" where
  "normalizeRecordName recordName zone =
     (let normalized = unFQDN recordName;
          normalized = TrimSuffix normalized (unFQDN zone)
      in unFQDN normalized)"

text \<open>
  The algorithm of the specification (section 4.1), step by step and in its own words:
  strip a single trailing dot, remove the zone when it is a suffix, strip again.
\<close>

definition strip_trailing_dot :: "string \<Rightarrow> string" where
  "strip_trailing_dot s = (if suffix ''.'' s then take (length s - 1) s else s)"

definition remove_suffix :: "string \<Rightarrow> string \<Rightarrow> string" where
  "remove_suffix z n = (if suffix z n then take (length n - length z) n else n)"

definition spec_normalize :: "string \<Rightarrow> string \<Rightarrow> string" where
  "spec_normalize name zone =
     strip_trailing_dot (remove_suffix (strip_trailing_dot zone) (strip_trailing_dot name))"

section \<open>Durations and floating point\<close>

text \<open>
  \<^verbatim>\<open>time.Duration\<close> is an \<^verbatim>\<open>int64\<close> count of nanoseconds and \<^verbatim>\<open>time.Second\<close> is
  \<open>10\<^sup>9\<close> of them; arithmetic on durations wraps around. Go's \<^verbatim>\<open>int\<close> is taken at
  64 bits, as on every 64-bit platform.
\<close>

type_synonym Duration = "64 word"

type_synonym go_int = "64 word"

definition Second :: Duration where
  "Second = 1000000000"

text \<open>
  A finite \<^verbatim>\<open>float64\<close> is the rational number it denotes. \<open>f64\<close> rounds a rational to
  the nearest number with a 53-bit significand, ties to the even significand, which is
  what every IEEE 754 operation of Go does to its exact result. Subnormal numbers,
  overflow, infinities, NaN and the sign of zero are left out: the values below are zero
  or lie between \<open>10\<^sup>-\<^sup>9\<close> and \<open>10\<^sup>1\<^sup>0\<close> in magnitude.
\<close>

definition ilog2 :: "rat \<Rightarrow> int" where
  \<comment> \<open>\<open>\<lfloor>log\<^sub>2 q\<rfloor>\<close> for \<open>0 < q\<close>\<close>
  "ilog2 q =
     (if 1 \<le> q then int (floorlog 2 (nat \<lfloor>q\<rfloor>)) - 1
      else - int (floorlog 2 (nat (\<lceil>1 / q\<rceil> - 1))))"

definition round_half_even :: "rat \<Rightarrow> int" where
  "round_half_even x =
     (let f = \<lfloor>x\<rfloor>; r = x - of_int f
      in if r < 1 / 2 then f else if 1 / 2 < r then f + 1 else if even f then f else f + 1)"

definition ulp :: "rat \<Rightarrow> rat" where
  \<comment> \<open>the distance between neighbouring 53-bit numbers around \<open>q \<noteq> 0\<close>\<close>
  "ulp q =
     (let e = ilog2 \<bar>q\<bar>
      in if 52 \<le> e then 2 ^ nat (e - 52) else 1 / 2 ^ nat (52 - e))"

definition f64 :: "rat \<Rightarrow> rat" where
  "f64 q = (if q = 0 then 0 else of_int (round_half_even (q / ulp q)) * ulp q)"

text \<open>
  \<^verbatim>\<open>
  func (d Duration) Seconds() float64 {
      sec := d / Second
      nsec := d % Second
      return float64(sec) + float64(nsec)/1e9
  }
  \<close>
  Go's \<^verbatim>\<open>/\<close> and \<^verbatim>\<open>%\<close> on \<^verbatim>\<open>int64\<close> truncate towards zero: they are \<open>sdiv\<close> and
  \<open>smod\<close> on the signed values. The quotient by \<^verbatim>\<open>Second\<close> cannot overflow.
\<close>

definition int64_quo :: "64 word \<Rightarrow> 64 word \<Rightarrow> 64 word" where
  "int64_quo a b = word_of_int (sint a sdiv sint b)"

definition int64_rem :: "64 word \<Rightarrow> 64 word \<Rightarrow> 64 word" where
  "int64_rem a b = word_of_int (sint a smod sint b)"

definition Seconds :: "Duration \<Rightarrow> rat" where
  "Seconds d =
     (let sec = int64_quo d Second;
          nsec = int64_rem d Second
      in f64 (f64 (of_int (sint sec)) + f64 (f64 (of_int (sint nsec)) / 1000000000)))"

text \<open>\<^verbatim>\<open>math.Max\<close> on finite numbers that are not both zero.\<close>

definition math_Max :: "rat \<Rightarrow> rat \<Rightarrow> rat" where
  "math_Max x y = (if y < x then x else y)"

text \<open>
  The conversion \<^verbatim>\<open>int(x)\<close> of a \<^verbatim>\<open>float64\<close> discards the fraction (truncation towards
  zero).
\<close>

definition trunc :: "rat \<Rightarrow> int" where
  "trunc x = (if 0 \<le> x then \<lfloor>x\<rfloor> else \<lceil>x\<rceil>)"

definition float_to_int :: "rat \<Rightarrow> go_int" where
  "float_to_int x = word_of_int (trunc x)"

text \<open>The conversion \<^verbatim>\<open>time.Duration(n) * time.Second\<close> of a count of seconds.\<close>

definition seconds_to_Duration :: "go_int \<Rightarrow> Duration" where
  "seconds_to_Duration n = n * Second"

section \<open>Records, errors and the transport\<close>

text \<open>
  \<^verbatim>\<open>libdns.Record\<close>, with the fields the two clients read and write, and its zero value
  \<^verbatim>\<open>libdns.Record{}\<close>.
\<close>

record Record =
  ID :: string
  Type :: string
  Name :: string
  Value :: string
  TTL :: Duration

definition Record_zero :: Record where
  "Record_zero = \<lparr>ID = [], Type = [], Name = [], Value = [], TTL = 0\<rparr>"

text \<open>
  A Go function returning \<^verbatim>\<open>(T, error)\<close> returns both values, the error being \<^verbatim>\<open>nil\<close>
  (\<open>None\<close>) on success; or it panics. Errors made by the clients themselves are spelled
  out, errors handed back by \<^verbatim>\<open>net/http\<close>, \<^verbatim>\<open>io\<close> and \<^verbatim>\<open>encoding/json\<close> carry their
  text.
\<close>

datatype error =
    ErrZoneAmbiguous \<comment> \<open>\<^verbatim>\<open>errors.New("zone is ambiguous")\<close>\<close>
  | ErrStatus int \<comment> \<open>\<^verbatim>\<open>fmt.Errorf("%s (%d)", http.StatusText(code), code)\<close>\<close>
  | ErrLibrary string

datatype panic =
    IndexOutOfRange nat nat \<comment> \<open>index, length\<close>
  | NilPointerDereference

datatype 'a outcome =
    Return 'a "error option"
  | Panic panic

record request =
  Method :: string
  URL :: string
  Header :: "(string \<times> string) list"
  Body :: "string option"

record response =
  StatusCode :: int
  ReadAll :: "string \<times> error option" \<comment> \<open>what \<^verbatim>\<open>ioutil.ReadAll(response.Body)\<close> returns\<close>

text \<open>The wire structs of the Hetzner client.\<close>

record zone =
  zone_ID :: string
  zone_TTL :: go_int

definition zone_zero :: zone where
  "zone_zero = \<lparr>zone_ID = [], zone_TTL = 0\<rparr>"

record hrecord = \<comment> \<open>\<^verbatim>\<open>record\<close> in the source; the TTL is a pointer, \<^verbatim>\<open>nil\<close> is \<open>None\<close>\<close>
  record_ID :: string
  record_ZoneID :: string
  record_Type :: string
  record_Name :: string
  record_Value :: string
  record_TTL :: "go_int option"

record getAllZonesResponse =
  Zones :: "zone list"

record getAllRecordsResponse =
  Records :: "hrecord list"

record createRecordResponse =
  created_Record :: hrecord

record updateRecordResponse =
  updated_Record :: hrecord

text \<open>The wire structs of the Vercel client.\<close>

record VercelRecord =
  vercel_Id :: string
  vercel_Type :: string
  vercel_Name :: string
  vercel_Value :: string
  vercel_TTL :: go_int

record vercel_createRecordResponse =
  Uid :: string

text \<open>
  What the clients do not compute themselves is a parameter of the model: when
  \<^verbatim>\<open>http.NewRequestWithContext\<close> rejects a method and URL, what \<^verbatim>\<open>client.Do\<close> answers to
  a request given the requests sent before it (the network and the provider, cancellation
  of the context included), \<^verbatim>\<open>url.QueryEscape\<close>, and \<^verbatim>\<open>json.Marshal\<close> and
  \<^verbatim>\<open>json.Unmarshal\<close> at each struct type.
\<close>

record env =
  NewRequest_error :: "string \<Rightarrow> string \<Rightarrow> error option"
  Do :: "request list \<Rightarrow> request \<Rightarrow> error + response"
  QueryEscape :: "string \<Rightarrow> string"
  Marshal_record :: "hrecord \<Rightarrow> error + string"
  Marshal_VercelRecord :: "VercelRecord \<Rightarrow> error + string"
  Unmarshal_getAllZonesResponse :: "string \<Rightarrow> error + getAllZonesResponse"
  Unmarshal_getAllRecordsResponse :: "string \<Rightarrow> error + getAllRecordsResponse"
  Unmarshal_createRecordResponse :: "string \<Rightarrow> error + createRecordResponse"
  Unmarshal_updateRecordResponse :: "string \<Rightarrow> error + updateRecordResponse"
  Unmarshal_vercel_createRecordResponse :: "string \<Rightarrow> error + vercel_createRecordResponse"

text \<open>
  \<^verbatim>\<open>http.NewRequestWithContext\<close> returns the request and \<^verbatim>\<open>nil\<close>, or \<^verbatim>\<open>nil\<close> and an
  error.
\<close>

definition NewRequestWithContext ::
  "env \<Rightarrow> string \<Rightarrow> string \<Rightarrow> string option \<Rightarrow> request option \<times> error option" where
  "NewRequestWithContext env method url body =
     (case NewRequest_error env method url of
        Some err \<Rightarrow> (None, Some err)
      | None \<Rightarrow> (Some \<lparr>Method = method, URL = url, Header = [], Body = body\<rparr>, None))"

text \<open>
  The state the clients act on is the list of requests handed to \<^verbatim>\<open>client.Do\<close> so far,
  oldest first. Every function takes it and returns it extended.
\<close>

type_synonym sent = "request list"

section \<open>The Hetzner client\<close>

text \<open>
  \<^verbatim>\<open>doRequest\<close> (lines 48-68). \<^verbatim>\<open>request.Header.Add\<close> on a \<^verbatim>\<open>nil\<close> request is a nil
  pointer dereference.
\<close>

definition hetzner_doRequest ::
  "env \<Rightarrow> string \<Rightarrow> request option \<Rightarrow> sent \<Rightarrow> string outcome \<times> sent" where
  "hetzner_doRequest env token request sent =
     (case request of
        None \<Rightarrow> (Panic NilPointerDereference, sent)
      | Some req \<Rightarrow>
          (let req = req\<lparr>Header := Header req @ [(''Auth-API-Token'', token)]\<rparr>
           in case Do env sent req of
                Inl err \<Rightarrow> (Return [] (Some err), sent @ [req])
              | Inr response \<Rightarrow>
                  if StatusCode response < 200 \<or> 300 \<le> StatusCode response
                  then (Return [] (Some (ErrStatus (StatusCode response))), sent @ [req])
                  else (case ReadAll response of
                          (data, Some err) \<Rightarrow> (Return [] (Some err), sent @ [req])
                        | (data, None) \<Rightarrow> (Return data None, sent @ [req]))))"

text \<open>
  \<^verbatim>\<open>getZoneData\<close> (lines 70-87). The error of \<^verbatim>\<open>http.NewRequestWithContext\<close> is
  overwritten unread; \<^verbatim>\<open>result.Zones[0]\<close> is a checked index.
\<close>

definition getZoneData :: "env \<Rightarrow> string \<Rightarrow> string \<Rightarrow> sent \<Rightarrow> zone outcome \<times> sent" where
  "getZoneData env token name sent =
     (let (req, err) = NewRequestWithContext env ''GET''
            (''https://dns.hetzner.com/api/v1/zones?name='' @ QueryEscape env name) None
      in case hetzner_doRequest env token req sent of
           (Panic p, sent) \<Rightarrow> (Panic p, sent)
         | (Return data (Some err), sent) \<Rightarrow> (Return zone_zero (Some err), sent)
         | (Return data None, sent) \<Rightarrow>
             (case Unmarshal_getAllZonesResponse env data of
                Inl err \<Rightarrow> (Return zone_zero (Some err), sent)
              | Inr result \<Rightarrow>
                  if 1 < length (Zones result)
                  then (Return zone_zero (Some ErrZoneAmbiguous), sent)
                  else if 0 < length (Zones result)
                  then (Return (Zones result ! 0) None, sent)
                  else (Panic (IndexOutOfRange 0 (length (Zones result))), sent)))"

text \<open>
  The translation of a wire record into a \<^verbatim>\<open>libdns.Record\<close>: lines 108-118 of
  \<^verbatim>\<open>getAllRecords\<close>, repeated at lines 155-165 of \<^verbatim>\<open>createRecord\<close> and lines 209-219
  of \<^verbatim>\<open>updateRecord\<close>.
\<close>

definition inbound_Record :: "zone \<Rightarrow> hrecord \<Rightarrow> Record" where
  "inbound_Record zoneData r =
     (let rec = \<lparr>ID = record_ID r, Type = record_Type r, Name = record_Name r,
                 Value = record_Value r, TTL = 0\<rparr>
      in case record_TTL r of
           Some ttl \<Rightarrow> rec\<lparr>TTL := seconds_to_Duration ttl\<rparr>
         | None \<Rightarrow> rec\<lparr>TTL := seconds_to_Duration (zone_TTL zoneData)\<rparr>)"

text \<open>The loop of \<^verbatim>\<open>getAllRecords\<close> (lines 106-120), appending to \<^verbatim>\<open>records\<close>.\<close>

fun inbound_loop :: "zone \<Rightarrow> hrecord list \<Rightarrow> Record list \<Rightarrow> Record list" where
  "inbound_loop zoneData [] records = records"
| "inbound_loop zoneData (r # rs) records =
     inbound_loop zoneData rs (records @ [inbound_Record zoneData r])"

text \<open>\<^verbatim>\<open>getAllRecords\<close> (lines 89-123); the \<^verbatim>\<open>nil\<close> slice is the empty list.\<close>

definition hetzner_getAllRecords ::
  "env \<Rightarrow> string \<Rightarrow> string \<Rightarrow> sent \<Rightarrow> Record list outcome \<times> sent" where
  "hetzner_getAllRecords env token zone sent =
     (case getZoneData env token zone sent of
        (Panic p, sent) \<Rightarrow> (Panic p, sent)
      | (Return zoneData (Some err), sent) \<Rightarrow> (Return [] (Some err), sent)
      | (Return zoneData None, sent) \<Rightarrow>
          (let (req, err) = NewRequestWithContext env ''GET''
                 (''https://dns.hetzner.com/api/v1/records?zone_id='' @ zone_ID zoneData) None
           in case hetzner_doRequest env token req sent of
                (Panic p, sent) \<Rightarrow> (Panic p, sent)
              | (Return data (Some err), sent) \<Rightarrow> (Return [] (Some err), sent)
              | (Return data None, sent) \<Rightarrow>
                  (case Unmarshal_getAllRecordsResponse env data of
                     Inl err \<Rightarrow> (Return [] (Some err), sent)
                   | Inr result \<Rightarrow>
                       (Return (inbound_loop zoneData (Records result) []) None, sent))))"

text \<open>
  The request payload: lines 131-137 of \<^verbatim>\<open>createRecord\<close>, repeated at lines 185-191 of
  \<^verbatim>\<open>updateRecord\<close>. \<^verbatim>\<open>ptr\<close> (lines 239-241) makes a pointer that is not \<^verbatim>\<open>nil\<close>.
\<close>

definition ptr :: "go_int \<Rightarrow> go_int option" where
  "ptr val = Some val"

definition outbound_record :: "zone \<Rightarrow> string \<Rightarrow> Record \<Rightarrow> hrecord" where
  "outbound_record zoneData zone r =
     \<lparr>record_ID = [],
      record_ZoneID = zone_ID zoneData,
      record_Type = Type r,
      record_Name = normalizeRecordName (Name r) zone,
      record_Value = Value r,
      record_TTL = ptr (float_to_int (Seconds (TTL r)))\<rparr>"

text \<open>\<^verbatim>\<open>createRecord\<close> (lines 125-167).\<close>

definition hetzner_createRecord ::
  "env \<Rightarrow> string \<Rightarrow> string \<Rightarrow> Record \<Rightarrow> sent \<Rightarrow> Record outcome \<times> sent" where
  "hetzner_createRecord env token zone r sent =
     (case getZoneData env token zone sent of
        (Panic p, sent) \<Rightarrow> (Panic p, sent)
      | (Return zoneData (Some err), sent) \<Rightarrow> (Return Record_zero (Some err), sent)
      | (Return zoneData None, sent) \<Rightarrow>
          (let reqData = outbound_record zoneData zone r
           in case Marshal_record env reqData of
                Inl err \<Rightarrow> (Return Record_zero (Some err), sent)
              | Inr reqBuffer \<Rightarrow>
                  (let (req, err) = NewRequestWithContext env ''POST''
                         ''https://dns.hetzner.com/api/v1/records'' (Some reqBuffer)
                   in case hetzner_doRequest env token req sent of
                        (Panic p, sent) \<Rightarrow> (Panic p, sent)
                      | (Return data (Some err), sent) \<Rightarrow> (Return Record_zero (Some err), sent)
                      | (Return data None, sent) \<Rightarrow>
                          (case Unmarshal_createRecordResponse env data of
                             Inl err \<Rightarrow> (Return Record_zero (Some err), sent)
                           | Inr result \<Rightarrow>
                               (Return (inbound_Record zoneData (created_Record result)) None,
                                sent)))))"

text \<open>\<^verbatim>\<open>updateRecord\<close> (lines 179-221).\<close>

definition hetzner_updateRecord ::
  "env \<Rightarrow> string \<Rightarrow> string \<Rightarrow> Record \<Rightarrow> sent \<Rightarrow> Record outcome \<times> sent" where
  "hetzner_updateRecord env token zone r sent =
     (case getZoneData env token zone sent of
        (Panic p, sent) \<Rightarrow> (Panic p, sent)
      | (Return zoneData (Some err), sent) \<Rightarrow> (Return Record_zero (Some err), sent)
      | (Return zoneData None, sent) \<Rightarrow>
          (let reqData = outbound_record zoneData zone r
           in case Marshal_record env reqData of
                Inl err \<Rightarrow> (Return Record_zero (Some err), sent)
              | Inr reqBuffer \<Rightarrow>
                  (let (req, err) = NewRequestWithContext env ''PUT''
                         (''https://dns.hetzner.com/api/v1/records/'' @ ID r) (Some reqBuffer)
                   in case hetzner_doRequest env token req sent of
                        (Panic p, sent) \<Rightarrow> (Panic p, sent)
                      | (Return data (Some err), sent) \<Rightarrow> (Return Record_zero (Some err), sent)
                      | (Return data None, sent) \<Rightarrow>
                          (case Unmarshal_updateRecordResponse env data of
                             Inl err \<Rightarrow> (Return Record_zero (Some err), sent)
                           | Inr result \<Rightarrow>
                               (Return (inbound_Record zoneData (updated_Record result)) None,
                                sent)))))"

text \<open>\<^verbatim>\<open>createOrUpdateRecord\<close> (lines 223-229).\<close>

definition hetzner_createOrUpdateRecord ::
  "env \<Rightarrow> string \<Rightarrow> string \<Rightarrow> Record \<Rightarrow> sent \<Rightarrow> Record outcome \<times> sent" where
  "hetzner_createOrUpdateRecord env token zone r sent =
     (if length (ID r) = 0 then hetzner_createRecord env token zone r sent
      else hetzner_updateRecord env token zone r sent)"

section \<open>The Vercel client\<close>

text \<open>
  \<^verbatim>\<open>doRequest\<close> (client.go, lines 33-57). Outside the 2xx range the body read so far is
  returned with the status error.
\<close>

definition vercel_doRequest ::
  "env \<Rightarrow> string \<Rightarrow> request option \<Rightarrow> sent \<Rightarrow> string outcome \<times> sent" where
  "vercel_doRequest env token request sent =
     (case request of
        None \<Rightarrow> (Panic NilPointerDereference, sent)
      | Some req \<Rightarrow>
          (let req = req\<lparr>Header := Header req @ [(''Authorization'', ''Bearer '' @ token)]\<rparr>;
               req = req\<lparr>Header := Header req @ [(''Content-Type'', ''application/json'')]\<rparr>
           in case Do env sent req of
                Inl err \<Rightarrow> (Return [] (Some err), sent @ [req])
              | Inr response \<Rightarrow>
                  if StatusCode response < 200 \<or> 300 \<le> StatusCode response
                  then (case ReadAll response of
                          (data, _) \<Rightarrow>
                            (Return data (Some (ErrStatus (StatusCode response))), sent @ [req]))
                  else (case ReadAll response of
                          (data, Some err) \<Rightarrow> (Return [] (Some err), sent @ [req])
                        | (data, None) \<Rightarrow> (Return data None, sent @ [req]))))"

text \<open>The request payload of \<^verbatim>\<open>createRecord\<close> (client.go, lines 90-95).\<close>

definition vercel_reqData :: "string \<Rightarrow> Record \<Rightarrow> VercelRecord" where
  "vercel_reqData zone r =
     \<lparr>vercel_Id = [],
      vercel_Type = Type r,
      vercel_Name = normalizeRecordName (Name r) zone,
      vercel_Value = Value r,
      vercel_TTL = float_to_int (math_Max (Seconds (TTL r)) 60)\<rparr>"

text \<open>\<^verbatim>\<open>createRecord\<close> (client.go, lines 89-122).\<close>

definition vercel_createRecord ::
  "env \<Rightarrow> string \<Rightarrow> string \<Rightarrow> Record \<Rightarrow> sent \<Rightarrow> Record outcome \<times> sent" where
  "vercel_createRecord env token zone r sent =
     (let reqData = vercel_reqData zone r
      in case Marshal_VercelRecord env reqData of
           Inl err \<Rightarrow> (Return Record_zero (Some err), sent)
         | Inr reqBuffer \<Rightarrow>
             (case NewRequestWithContext env ''POST''
                     (''https://api.vercel.com/v2/domains/'' @ zone @ ''/records'') (Some reqBuffer) of
                (req, Some err) \<Rightarrow> (Return Record_zero (Some err), sent)
              | (req, None) \<Rightarrow>
                  (case vercel_doRequest env token req sent of
                     (Panic p, sent) \<Rightarrow> (Panic p, sent)
                   | (Return data (Some err), sent) \<Rightarrow> (Return Record_zero (Some err), sent)
                   | (Return data None, sent) \<Rightarrow>
                       (case Unmarshal_vercel_createRecordResponse env data of
                          Inl err \<Rightarrow> (Return Record_zero (Some err), sent)
                        | Inr result \<Rightarrow>
                            (Return \<lparr>ID = Uid result,
                                     Type = Type r,
                                     Name = normalizeRecordName (Name r) zone,
                                     Value = Value r,
                                     TTL = 0\<rparr> None, sent)))))"

text \<open>\<^verbatim>\<open>deleteRecord\<close> (client.go, lines 124-136); it returns an error only.\<close>

definition vercel_deleteRecord ::
  "env \<Rightarrow> string \<Rightarrow> string \<Rightarrow> Record \<Rightarrow> sent \<Rightarrow> unit outcome \<times> sent" where
  "vercel_deleteRecord env zone token record sent =
     (case NewRequestWithContext env ''DELETE''
             (''https://api.vercel.com/v2/domains/'' @ zone @ ''/records/'' @ ID record) None of
        (req, Some err) \<Rightarrow> (Return () (Some err), sent)
      | (req, None) \<Rightarrow>
          (case vercel_doRequest env token req sent of
             (Panic p, sent) \<Rightarrow> (Panic p, sent)
           | (Return data (Some err), sent) \<Rightarrow> (Return () (Some err), sent)
           | (Return data None, sent) \<Rightarrow> (Return () None, sent)))"

text \<open>\<^verbatim>\<open>updateRecord\<close> (client.go, lines 138-151).\<close>

definition vercel_updateRecord ::
  "env \<Rightarrow> string \<Rightarrow> string \<Rightarrow> Record \<Rightarrow> sent \<Rightarrow> Record outcome \<times> sent" where
  "vercel_updateRecord env token zone r sent =
     (case vercel_deleteRecord env zone token r sent of
        (Panic p, sent) \<Rightarrow> (Panic p, sent)
      | (Return _ (Some err), sent) \<Rightarrow> (Return Record_zero (Some err), sent)
      | (Return _ None, sent) \<Rightarrow>
          (case vercel_createRecord env token zone r sent of
             (Panic p, sent) \<Rightarrow> (Panic p, sent)
           | (Return newRecord (Some err), sent) \<Rightarrow> (Return Record_zero (Some err), sent)
           | (Return newRecord None, sent) \<Rightarrow> (Return newRecord None, sent)))"

text \<open>\<^verbatim>\<open>createOrUpdateRecord\<close> (client.go, lines 153-159).\<close>

definition vercel_createOrUpdateRecord ::
  "env \<Rightarrow> string \<Rightarrow> string \<Rightarrow> Record \<Rightarrow> sent \<Rightarrow> Record outcome \<times> sent" where
  "vercel_createOrUpdateRecord env token zone r sent =
     (if length (ID r) = 0 then vercel_createRecord env token zone r sent
      else vercel_updateRecord env token zone r sent)"

section \<open>Requests issued by a call\<close>

text \<open>The requests a call has added to the list of requests sent.\<close>

definition issued :: "sent \<Rightarrow> 'a \<times> sent \<Rightarrow> request list" where
  "issued sent res = drop (length sent) (snd res)"

text \<open>
  A small provider for running the clients on concrete inputs: every request is accepted,
  a \<^verbatim>\<open>DELETE\<close> is answered with the given status and every other request with 200,
  and the zone listing decodes to the given zones.
\<close>

definition sample_record :: hrecord where
  "sample_record =
     \<lparr>record_ID = ''r1'', record_ZoneID = ''z1'', record_Type = ''TXT'',
      record_Name = ''www'', record_Value = ''v'', record_TTL = None\<rparr>"

definition sample_env :: "zone list \<Rightarrow> int \<Rightarrow> env" where
  "sample_env zones delete_status =
     \<lparr>NewRequest_error = (\<lambda>method url. None),
      Do = (\<lambda>sent req. Inr \<lparr>StatusCode = (if Method req = ''DELETE'' then delete_status else 200),
                                ReadAll = (''{}'', None)\<rparr>),
      QueryEscape = (\<lambda>s. s),
      Marshal_record = (\<lambda>r. Inr ''{}''),
      Marshal_VercelRecord = (\<lambda>r. Inr ''{}''),
      Unmarshal_getAllZonesResponse = (\<lambda>data. Inr \<lparr>Zones = zones\<rparr>),
      Unmarshal_getAllRecordsResponse = (\<lambda>data. Inr \<lparr>Records = [sample_record]\<rparr>),
      Unmarshal_createRecordResponse = (\<lambda>data. Inr \<lparr>created_Record = sample_record\<rparr>),
      Unmarshal_updateRecordResponse = (\<lambda>data. Inr \<lparr>updated_Record = sample_record\<rparr>),
      Unmarshal_vercel_createRecordResponse = (\<lambda>data. Inr \<lparr>Uid = ''rec_1''\<rparr>)\<rparr>"

text \<open>
  The same provider with a \<^verbatim>\<open>json.Marshal\<close> of Vercel payloads that shows the TTL it is
  given, for the two values looked at below.
\<close>

definition sample_Marshal_ttl :: "VercelRecord \<Rightarrow> error + string" where
  "sample_Marshal_ttl p =
     Inr (if vercel_TTL p = 60 then ''ttl=60''
          else if vercel_TTL p = 300 then ''ttl=300''
          else ''{}'')"

definition sample_env_ttl :: env where
  "sample_env_ttl = (sample_env [] 200)\<lparr>Marshal_VercelRecord := sample_Marshal_ttl\<rparr>"

definition sample_Record :: "string \<Rightarrow> Duration \<Rightarrow> Record" where
  "sample_Record ident ttl =
     \<lparr>ID = ident, Type = ''TXT'', Name = ''www.example.com.'', Value = ''v'', TTL = ttl\<rparr>"

text \<open>
  The request \<^verbatim>\<open>getZoneData\<close> hands to \<^verbatim>\<open>client.Do\<close>, and the condition that this
  request is accepted, answered with a 2xx status and a readable body, and that the body
  decodes to the zone listing \<open>result\<close>.
\<close>

definition zone_request :: "env \<Rightarrow> string \<Rightarrow> string \<Rightarrow> request" where
  "zone_request env token name =
     \<lparr>Method = ''GET'',
      URL = ''https://dns.hetzner.com/api/v1/zones?name='' @ QueryEscape env name,
      Header = [(''Auth-API-Token'', token)],
      Body = None\<rparr>"

definition zone_listing ::
  "env \<Rightarrow> string \<Rightarrow> string \<Rightarrow> sent \<Rightarrow> getAllZonesResponse \<Rightarrow> bool" where
  "zone_listing env token name sent result \<longleftrightarrow>
     NewRequest_error env ''GET''
       (''https://dns.hetzner.com/api/v1/zones?name='' @ QueryEscape env name) = None \<and>
     (case Do env sent (zone_request env token name) of
        Inl err \<Rightarrow> False
      | Inr response \<Rightarrow>
          200 \<le> StatusCode response \<and> StatusCode response < 300 \<and>
          (case ReadAll response of
             (data, Some err) \<Rightarrow> False
           | (data, None) \<Rightarrow> Unmarshal_getAllZonesResponse env data = Inr result))"

section \<open>Facts about the string functions\<close>

lemma HasSuffix_iff_suffix: "HasSuffix s suff \<longleftrightarrow> suffix suff s"
proof
  assume "HasSuffix s suff"
  then have "drop (length s - length suff) s = suff"
    by (simp add: HasSuffix_def)
  then show "suffix suff s"
    by (metis suffix_drop)
next
  assume "suffix suff s"
  then obtain p where "s = p @ suff"
    by (auto simp: suffix_def)
  then show "HasSuffix s suff"
    by (simp add: HasSuffix_def)
qed

lemma TrimSuffix_append: "TrimSuffix (p @ z) z = p"
  by (simp add: TrimSuffix_def HasSuffix_def)

lemma TrimSuffix_remove_suffix: "TrimSuffix n z = remove_suffix z n"
  by (simp add: TrimSuffix_def remove_suffix_def HasSuffix_iff_suffix)

lemma unFQDN_strip: "unFQDN s = strip_trailing_dot s"
proof (cases s rule: rev_cases)
  case Nil
  then show ?thesis
    by (simp add: unFQDN_def strip_trailing_dot_def)
next
  case (snoc p c)
  then show ?thesis
    by (auto simp: unFQDN_def strip_trailing_dot_def)
qed

lemma unFQDN_snoc_dot: "unFQDN (p @ ''.'') = p"
  by (simp add: unFQDN_def)

lemma unFQDN_no_dot: "\<not> HasSuffix s ''.'' \<Longrightarrow> unFQDN s = s"
  by (cases s rule: rev_cases) (auto simp: unFQDN_def HasSuffix_iff_suffix)

lemma normalize_no_trailing_dot:
  assumes "\<not> sublist ''..'' name"
  shows "\<not> HasSuffix (normalizeRecordName name zone) ''.''"
proof
  let ?n = "unFQDN name"
  let ?r = "TrimSuffix ?n (unFQDN zone)"
  assume "HasSuffix (normalizeRecordName name zone) ''.''"
  then have "HasSuffix (unFQDN ?r) ''.''" by (simp add: normalizeRecordName_def)
  then have "suffix ''..'' ?r"
    by (cases ?r rule: rev_cases) (auto simp: unFQDN_def HasSuffix_iff_suffix split: if_splits)
  then have "sublist ''..'' ?r" by (rule suffix_imp_sublist)
  moreover have "sublist ?r ?n" by (simp add: TrimSuffix_def)
  moreover have "sublist ?n name" 
    by (simp add: unFQDN_def butlast_conv_take)
  ultimately have "sublist ''..'' name"
    using sublist_order.order_trans by blast
  with assms show False by simp
qed


lemma unFQDN_keeps_no_double:
  assumes "\<not> HasSuffix name ''..''"
  shows "\<not> HasSuffix (unFQDN name) ''.''"
proof (cases name rule: rev_cases)
  case Nil
  then show ?thesis by (simp add: unFQDN_def HasSuffix_def)
next
  case (snoc p c)
  with assms show ?thesis
    by (auto simp: unFQDN_def HasSuffix_iff_suffix)
qed

lemma normalize_no_zone_suffix:
  assumes nd: "\<not> HasSuffix name ''..''"
      and z: "unFQDN zone \<noteq> []"
      and zz: "\<not> HasSuffix (unFQDN name) (unFQDN zone @ unFQDN zone)"
      and zdz: "\<not> HasSuffix (unFQDN name) (unFQDN zone @ ''.'' @ unFQDN zone)"
  shows "\<not> HasSuffix (normalizeRecordName name zone) (unFQDN zone)"
proof (cases "HasSuffix (unFQDN name) (unFQDN zone)")
  case False
  then have "normalizeRecordName name zone = unFQDN (unFQDN name)"
    by (simp add: normalizeRecordName_def TrimSuffix_def)
  also have "\<dots> = unFQDN name"
    using nd by (simp add: unFQDN_keeps_no_double unFQDN_no_dot)
  finally show ?thesis using False by simp
next
  case True
  then obtain p where n: "unFQDN name = p @ unFQDN zone"
    by (auto simp: HasSuffix_iff_suffix suffix_def)
  then have out: "normalizeRecordName name zone = unFQDN p"
    by (simp add: normalizeRecordName_def TrimSuffix_append)
  show ?thesis
  proof
    assume "HasSuffix (normalizeRecordName name zone) (unFQDN zone)"
    then obtain q where q: "unFQDN p = q @ unFQDN zone"
      by (auto simp: out HasSuffix_iff_suffix suffix_def)
    show False
    proof (cases "HasSuffix p ''.''")
      case True
      then obtain p' where "p = p' @ ''.''"
        by (auto simp: HasSuffix_iff_suffix suffix_def)
      with q have "p = q @ unFQDN zone @ ''.''"
        by (simp add: unFQDN_snoc_dot)
      with n have "unFQDN name = q @ (unFQDN zone @ ''.'' @ unFQDN zone)"
        by simp
      then have "HasSuffix (unFQDN name) (unFQDN zone @ ''.'' @ unFQDN zone)"
        unfolding HasSuffix_iff_suffix suffix_def by blast
      with zdz show False by simp
    next
      case False
      with q have "p = q @ unFQDN zone"
        by (simp add: unFQDN_no_dot)
      with n have "unFQDN name = q @ (unFQDN zone @ unFQDN zone)"
        by simp
      then have "HasSuffix (unFQDN name) (unFQDN zone @ unFQDN zone)"
        unfolding HasSuffix_iff_suffix suffix_def by blast
      with zz show False by simp
    qed
  qed
qed

lemma unFQDN_qualified:
  assumes "zone \<noteq> []"
  shows "unFQDN (p @ zone) = p @ unFQDN zone"
  using assms by (cases zone rule: rev_cases) (auto simp: unFQDN_def butlast_append)

lemma normalize_qualified:
  assumes "zone \<noteq> []"
  shows "normalizeRecordName (x @ ''.'' @ zone) zone = x"
proof -
  have "unFQDN ((x @ ''.'') @ zone) = (x @ ''.'') @ unFQDN zone"
    using assms by (rule unFQDN_qualified)
  then have "TrimSuffix (unFQDN (x @ ''.'' @ zone)) (unFQDN zone) = x @ ''.''"
    by (simp only: append_assoc [symmetric] TrimSuffix_append)
  then show ?thesis
    by (simp only: normalizeRecordName_def Let_def unFQDN_snoc_dot)
qed

lemma normalize_qualified_empty_zone:
  assumes "\<not> HasSuffix x ''.''"
  shows "normalizeRecordName (x @ ''.'' @ []) [] = x"
proof -
  have "unFQDN [] = []"
    by (simp add: unFQDN_def)
  moreover have "TrimSuffix x [] = x"
    by (simp add: TrimSuffix_def)
  moreover have "unFQDN (x @ ''.'' @ []) = x"
    by (simp add: unFQDN_def)
  ultimately show ?thesis
    using assms by (simp add: normalizeRecordName_def unFQDN_no_dot)
qed

lemma normalize_requalified:
  assumes "zone \<noteq> [] \<or> \<not> HasSuffix (normalizeRecordName name zone) ''.''"
  shows "normalizeRecordName (normalizeRecordName name zone @ ''.'' @ zone) zone
    = normalizeRecordName name zone"
proof (cases "zone = []")
  case False
  then show ?thesis
    by (rule normalize_qualified)
next
  case True
  with assms have "\<not> HasSuffix (normalizeRecordName name []) ''.''"
    by simp
  then show ?thesis
    unfolding True by (rule normalize_qualified_empty_zone)
qed

text \<open>The examples of section 8 of the specification.\<close>

lemma normalize_example_www:
  "normalizeRecordName ''www.example.com.'' ''example.com'' = ''www''"
  by (simp add: normalizeRecordName_def unFQDN_def TrimSuffix_def HasSuffix_def)

lemma normalize_example_root:
  "normalizeRecordName ''example.com'' ''example.com'' = ''''"
  by (simp add: normalizeRecordName_def unFQDN_def TrimSuffix_def HasSuffix_def)

lemma normalize_example_other:
  "normalizeRecordName ''www.example.com'' ''other.com'' = ''www.example.com''"
  by (simp add: normalizeRecordName_def unFQDN_def TrimSuffix_def HasSuffix_def)

section \<open>Claims about name normalisation\<close>

text \<open>
  C1. For every record name and zone, \<open>normalizeRecordName name zone\<close> equals the result
  of stripping a single trailing dot from the name, stripping a single trailing dot from
  the zone, removing the stripped zone as a suffix of the stripped name when it is one,
  and stripping a single trailing dot from the result again.
\<close>

theorem normalizeRecordName_refines_spec:
  "normalizeRecordName name zone = spec_normalize name zone"
  by (simp add: normalizeRecordName_def spec_normalize_def Let_def
      TrimSuffix_remove_suffix unFQDN_strip)

text \<open>
  C2 (as stated). For every record name and zone, the output of \<open>normalizeRecordName\<close>
  never ends with a trailing dot and never ends with the dot-stripped zone as a suffix.
  \<open>unFQDN\<close> strips one dot only, and \<open>TrimSuffix\<close> needs the zone at the very end of
  the once-stripped name: a name ending in three dots keeps one of them, and a qualified
  name ending in two dots keeps its zone.
\<close>

theorem normalizeRecordName_relative_counterexample:
  "HasSuffix (normalizeRecordName ''www...'' ''example.com'') ''.'' \<and>
   HasSuffix (normalizeRecordName ''www.example.com..'' ''example.com'') (unFQDN ''example.com'')"
  by (simp add: normalizeRecordName_def unFQDN_def TrimSuffix_def HasSuffix_def)

text \<open>
  C2 (amended). For every record name that contains no two consecutive dots and every
  zone, the output of \<open>normalizeRecordName\<close> does not end with a dot; and when moreover
  the dot-stripped zone is not empty and the dot-stripped name does not end with the zone
  twice (zone directly followed by zone, or zone, a dot, zone), the output does not end
  with the dot-stripped zone.
\<close>

theorem normalizeRecordName_relative:
  assumes "\<not> sublist ''..'' name"
  shows "\<not> HasSuffix (normalizeRecordName name zone) ''.'' \<and>
    (unFQDN zone \<noteq> [] \<and>
     \<not> HasSuffix (unFQDN name) (unFQDN zone @ unFQDN zone) \<and>
     \<not> HasSuffix (unFQDN name) (unFQDN zone @ ''.'' @ unFQDN zone) \<longrightarrow>
     \<not> HasSuffix (normalizeRecordName name zone) (unFQDN zone))"
proof (intro conjI impI)
  show "\<not> HasSuffix (normalizeRecordName name zone) ''.''"
    using assms by (rule normalize_no_trailing_dot)
next
  assume h: "unFQDN zone \<noteq> [] \<and>
     \<not> HasSuffix (unFQDN name) (unFQDN zone @ unFQDN zone) \<and>
     \<not> HasSuffix (unFQDN name) (unFQDN zone @ ''.'' @ unFQDN zone)"
  have "\<not> HasSuffix name ''..''"
    using assms suffix_imp_sublist by (auto simp: HasSuffix_iff_suffix)
  with h show "\<not> HasSuffix (normalizeRecordName name zone) (unFQDN zone)"
    by (simp add: normalize_no_zone_suffix)
qed

theorem normalizeRecordName_relative_witness:
  "\<not> sublist ''..'' ''www.example.com.'' \<and>
   unFQDN ''example.com.'' \<noteq> [] \<and>
   \<not> HasSuffix (unFQDN ''www.example.com.'') (unFQDN ''example.com.'' @ unFQDN ''example.com.'') \<and>
   \<not> HasSuffix (unFQDN ''www.example.com.'')
       (unFQDN ''example.com.'' @ ''.'' @ unFQDN ''example.com.'') \<and>
   normalizeRecordName ''www.example.com.'' ''example.com.'' = ''www'' \<and>
   \<not> HasSuffix (normalizeRecordName ''www.example.com.'' ''example.com.'') ''.'' \<and>
   \<not> HasSuffix (normalizeRecordName ''www.example.com.'' ''example.com.'')
       (unFQDN ''example.com.'')"
proof -
  have h: "\<not> sublist ''..'' ''www.example.com.''"
    by code_simp
  have e: "unFQDN ''example.com.'' = ''example.com''" "unFQDN ''www.example.com.'' = ''www.example.com''"
    by (simp_all add: unFQDN_def)
  have n: "normalizeRecordName ''www.example.com.'' ''example.com.'' = ''www''"
    by (simp add: normalizeRecordName_def unFQDN_def TrimSuffix_def HasSuffix_def)
  have p: "\<not> HasSuffix ''www.example.com'' (''example.com'' @ ''example.com'')"
    "\<not> HasSuffix ''www.example.com'' (''example.com'' @ ''.'' @ ''example.com'')"
    by (simp_all add: HasSuffix_def)
  show ?thesis
    using h p normalizeRecordName_relative [OF h, of "''example.com.''"]
    by (simp add: e n)
qed

text \<open>
  C3 (as stated). For every record name and zone, re-qualifying a normalised name with
  the zone and normalising again gives the normalised name back. With the empty zone the
  second normalisation strips one more dot from a name that ended in three.
\<close>

theorem normalizeRecordName_fixed_point_counterexample:
  "normalizeRecordName (normalizeRecordName ''a...'' [] @ ''.'' @ []) []
     \<noteq> normalizeRecordName ''a...'' []"
  by (simp add: normalizeRecordName_def unFQDN_def TrimSuffix_def HasSuffix_def)

text \<open>
  C3 (amended). For every record name and every zone such that the zone is not the empty
  string or the normalised name does not end with a dot, re-qualifying the normalised
  name with the zone and normalising again gives the normalised name back.
\<close>

theorem normalizeRecordName_fixed_point:
  assumes "zone \<noteq> [] \<or> \<not> HasSuffix (normalizeRecordName name zone) ''.''"
  shows "normalizeRecordName (normalizeRecordName name zone @ ''.'' @ zone) zone
    = normalizeRecordName name zone"
  using assms by (rule normalize_requalified)

theorem normalizeRecordName_fixed_point_witness:
  "''example.com'' \<noteq> [] \<and>
   normalizeRecordName ''www.example.com.'' ''example.com'' = ''www'' \<and>
   normalizeRecordName (''www'' @ ''.'' @ ''example.com'') ''example.com'' = ''www''"
proof -
  have n: "normalizeRecordName ''www.example.com.'' ''example.com'' = ''www''"
    by (simp add: normalizeRecordName_def unFQDN_def TrimSuffix_def HasSuffix_def)
  have "''example.com'' \<noteq> [] \<or>
      \<not> HasSuffix (normalizeRecordName ''www.example.com.'' ''example.com'') ''.''"
    by simp
  from normalizeRecordName_fixed_point [OF this] show ?thesis
    by (simp add: n)
qed

section \<open>Facts about the transport and the zone lookup\<close>

lemma hetzner_doRequest_nil:
  "hetzner_doRequest env token None sent = (Panic NilPointerDereference, sent)"
  by (simp add: hetzner_doRequest_def)

lemma hetzner_doRequest_sent:
  "snd (hetzner_doRequest env token (Some q) sent)
     = sent @ [q\<lparr>Header := Header q @ [(''Auth-API-Token'', token)]\<rparr>]"
  by (simp add: hetzner_doRequest_def Let_def split: sum.splits prod.splits option.splits)

lemma hetzner_doRequest_no_panic:
  "fst (hetzner_doRequest env token (Some q) sent) \<noteq> Panic p"
  by (simp add: hetzner_doRequest_def Let_def split: sum.splits prod.splits option.splits)

lemma NewRequestWithContext_fail:
  "NewRequest_error env method url = Some e \<Longrightarrow>
     NewRequestWithContext env method url body = (None, Some e)"
  by (simp add: NewRequestWithContext_def)

lemma NewRequestWithContext_ok:
  "NewRequest_error env method url = None \<Longrightarrow>
     NewRequestWithContext env method url body
       = (Some \<lparr>Method = method, URL = url, Header = [], Body = body\<rparr>, None)"
  by (simp add: NewRequestWithContext_def)

lemma hetzner_doRequest_listing:
  assumes "zone_listing env token name sent result"
  shows "\<exists>data. hetzner_doRequest env token
           (Some \<lparr>Method = ''GET'',
                  URL = ''https://dns.hetzner.com/api/v1/zones?name='' @ QueryEscape env name,
                  Header = [], Body = None\<rparr>) sent
         = (Return data None, sent @ [zone_request env token name]) \<and>
         Unmarshal_getAllZonesResponse env data = Inr result"
  using assms
  by (auto simp: zone_listing_def hetzner_doRequest_def zone_request_def Let_def
      split: sum.splits prod.splits option.splits)

lemma getZoneData_listing:
  assumes "zone_listing env token name sent result"
  shows "getZoneData env token name sent =
    (if 1 < length (Zones result) then Return zone_zero (Some ErrZoneAmbiguous)
     else if 0 < length (Zones result) then Return (Zones result ! 0) None
     else Panic (IndexOutOfRange 0 (length (Zones result))),
     sent @ [zone_request env token name])"
proof -
  from assms have "NewRequest_error env ''GET''
       (''https://dns.hetzner.com/api/v1/zones?name='' @ QueryEscape env name) = None"
    by (simp add: zone_listing_def)
  then have n: "NewRequestWithContext env ''GET''
       (''https://dns.hetzner.com/api/v1/zones?name='' @ QueryEscape env name) None
       = (Some \<lparr>Method = ''GET'',
                  URL = ''https://dns.hetzner.com/api/v1/zones?name='' @ QueryEscape env name,
                  Header = [], Body = None\<rparr>, None)"
    by (rule NewRequestWithContext_ok)
  from hetzner_doRequest_listing [OF assms] obtain data where
    "hetzner_doRequest env token
           (Some \<lparr>Method = ''GET'',
                  URL = ''https://dns.hetzner.com/api/v1/zones?name='' @ QueryEscape env name,
                  Header = [], Body = None\<rparr>) sent
         = (Return data None, sent @ [zone_request env token name])"
    "Unmarshal_getAllZonesResponse env data = Inr result"
    by blast
  with n show ?thesis
    by (simp add: getZoneData_def)
qed

lemma getZoneData_ambiguous:
  assumes "zone_listing env token name sent result" and "2 \<le> length (Zones result)"
  shows "getZoneData env token name sent =
    (Return zone_zero (Some ErrZoneAmbiguous), sent @ [zone_request env token name])"
  using assms by (simp add: getZoneData_listing)

lemma getZoneData_single:
  assumes "zone_listing env token name sent result" and "Zones result = [zoneData]"
  shows "getZoneData env token name sent =
    (Return zoneData None, sent @ [zone_request env token name])"
  using assms by (simp add: getZoneData_listing)

lemma getZoneData_empty:
  assumes "zone_listing env token name sent result" and "Zones result = []"
  shows "getZoneData env token name sent =
    (Panic (IndexOutOfRange 0 0), sent @ [zone_request env token name])"
  using assms by (simp add: getZoneData_listing)

section \<open>Claims about the Hetzner zone lookup\<close>

text \<open>
  C8. When the Hetzner zone-listing response contains two or more zones, \<open>getZoneData\<close>
  fails with the ambiguous-zone error and performs no further provider calls (the listing
  request is the only request sent), returning the zero zone; \<open>getAllRecords\<close>,
  \<open>createRecord\<close> and \<open>updateRecord\<close> return this error at once, with their zero result
  and without sending anything more.
\<close>

theorem getZoneData_ambiguous_zone:
  assumes "zone_listing env token name sent result" and "2 \<le> length (Zones result)"
  shows "getZoneData env token name sent =
      (Return zone_zero (Some ErrZoneAmbiguous), sent @ [zone_request env token name]) \<and>
    hetzner_getAllRecords env token name sent =
      (Return [] (Some ErrZoneAmbiguous), sent @ [zone_request env token name]) \<and>
    hetzner_createRecord env token name r sent =
      (Return Record_zero (Some ErrZoneAmbiguous), sent @ [zone_request env token name]) \<and>
    hetzner_updateRecord env token name r sent =
      (Return Record_zero (Some ErrZoneAmbiguous), sent @ [zone_request env token name])"
  using getZoneData_ambiguous [OF assms]
  by (simp add: hetzner_getAllRecords_def hetzner_createRecord_def hetzner_updateRecord_def)

theorem getZoneData_ambiguous_zone_witness:
  "zone_listing (sample_env [\<lparr>zone_ID = ''z1'', zone_TTL = 300\<rparr>, \<lparr>zone_ID = ''z2'', zone_TTL = 60\<rparr>] 200)
     ''tok'' ''example.com'' []
     \<lparr>Zones = [\<lparr>zone_ID = ''z1'', zone_TTL = 300\<rparr>, \<lparr>zone_ID = ''z2'', zone_TTL = 60\<rparr>]\<rparr> \<and>
   getZoneData (sample_env [\<lparr>zone_ID = ''z1'', zone_TTL = 300\<rparr>, \<lparr>zone_ID = ''z2'', zone_TTL = 60\<rparr>] 200)
     ''tok'' ''example.com'' [] =
     (Return zone_zero (Some ErrZoneAmbiguous),
      [\<lparr>Method = ''GET'', URL = ''https://dns.hetzner.com/api/v1/zones?name=example.com'',
        Header = [(''Auth-API-Token'', ''tok'')], Body = None\<rparr>]) \<and>
   hetzner_createRecord (sample_env [\<lparr>zone_ID = ''z1'', zone_TTL = 300\<rparr>, \<lparr>zone_ID = ''z2'', zone_TTL = 60\<rparr>] 200)
     ''tok'' ''example.com'' (sample_Record [] 0) [] =
     (Return Record_zero (Some ErrZoneAmbiguous),
      [\<lparr>Method = ''GET'', URL = ''https://dns.hetzner.com/api/v1/zones?name=example.com'',
        Header = [(''Auth-API-Token'', ''tok'')], Body = None\<rparr>])"
proof -
  let ?env = "sample_env [\<lparr>zone_ID = ''z1'', zone_TTL = 300\<rparr>, \<lparr>zone_ID = ''z2'', zone_TTL = 60\<rparr>] 200"
  let ?result = "\<lparr>Zones = [\<lparr>zone_ID = ''z1'', zone_TTL = 300\<rparr>, \<lparr>zone_ID = ''z2'', zone_TTL = 60\<rparr>]\<rparr>"
  have h: "zone_listing ?env ''tok'' ''example.com'' [] ?result"
    by (simp add: zone_listing_def sample_env_def zone_request_def)
  have l: "2 \<le> length (Zones ?result)"
    by simp
  have q: "zone_request ?env ''tok'' ''example.com'' =
      \<lparr>Method = ''GET'', URL = ''https://dns.hetzner.com/api/v1/zones?name=example.com'',
        Header = [(''Auth-API-Token'', ''tok'')], Body = None\<rparr>"
    by (simp add: zone_request_def sample_env_def)
  show ?thesis
    using h getZoneData_ambiguous_zone [OF h l, of "sample_Record [] 0"]
    by (simp add: q)
qed

text \<open>
  C9. When the Hetzner zone-listing response contains no zone, \<open>getZoneData\<close> reads index 0
  of the empty list: the outcome is an index-out-of-range panic, not a returned error
  value.
\<close>

theorem getZoneData_no_zone_panics:
  assumes "zone_listing env token name sent result" and "length (Zones result) = 0"
  shows "getZoneData env token name sent =
      (Panic (IndexOutOfRange 0 0), sent @ [zone_request env token name]) \<and>
    (\<forall>z err. fst (getZoneData env token name sent) \<noteq> Return z err)"
  using assms by (simp add: getZoneData_empty)

theorem getZoneData_no_zone_panics_witness:
  "zone_listing (sample_env [] 200) ''tok'' ''example.com'' [] \<lparr>Zones = []\<rparr> \<and>
   getZoneData (sample_env [] 200) ''tok'' ''example.com'' [] =
     (Panic (IndexOutOfRange 0 0),
      [\<lparr>Method = ''GET'', URL = ''https://dns.hetzner.com/api/v1/zones?name=example.com'',
        Header = [(''Auth-API-Token'', ''tok'')], Body = None\<rparr>])"
proof -
  have h: "zone_listing (sample_env [] 200) ''tok'' ''example.com'' [] \<lparr>Zones = []\<rparr>"
    by (simp add: zone_listing_def sample_env_def zone_request_def)
  have l: "length (Zones \<lparr>Zones = []\<rparr>) = 0"
    by simp
  have q: "zone_request (sample_env [] 200) ''tok'' ''example.com'' =
      \<lparr>Method = ''GET'', URL = ''https://dns.hetzner.com/api/v1/zones?name=example.com'',
        Header = [(''Auth-API-Token'', ''tok'')], Body = None\<rparr>"
    by (simp add: zone_request_def sample_env_def)
  show ?thesis
    using h getZoneData_no_zone_panics [OF h l]
    by (simp add: q)
qed

section \<open>Facts about the Vercel client\<close>

lemma vercel_doRequest_sent:
  "snd (vercel_doRequest env token (Some q) sent)
     = sent @ [q\<lparr>Header := Header q @ [(''Authorization'', ''Bearer '' @ token),
                                          (''Content-Type'', ''application/json'')]\<rparr>]"
  by (simp add: vercel_doRequest_def Let_def split: sum.splits prod.splits option.splits)

lemma vercel_doRequest_no_panic:
  "fst (vercel_doRequest env token (Some q) sent) \<noteq> Panic p"
  by (simp add: vercel_doRequest_def Let_def split: sum.splits prod.splits option.splits)

lemma vercel_doRequest_cases:
  obtains data err where "vercel_doRequest env token (Some q) sent =
    (Return data err, sent @ [q\<lparr>Header := Header q @ [(''Authorization'', ''Bearer '' @ token),
                                          (''Content-Type'', ''application/json'')]\<rparr>])"
proof (cases "vercel_doRequest env token (Some q) sent")
  case (Pair out s)
  with vercel_doRequest_sent [of env token q sent] vercel_doRequest_no_panic [of env token q sent]
  show ?thesis
    by (cases out) (auto intro: that)
qed

lemma vercel_createRecord_issued:
  "issued sent (vercel_createRecord env token zone r sent) = [] \<or>
   (\<exists>buf. Marshal_VercelRecord env (vercel_reqData zone r) = Inr buf \<and>
      NewRequest_error env ''POST'' (''https://api.vercel.com/v2/domains/'' @ zone @ ''/records'') = None \<and>
      issued sent (vercel_createRecord env token zone r sent) =
        [\<lparr>Method = ''POST'', URL = ''https://api.vercel.com/v2/domains/'' @ zone @ ''/records'',
          Header = [(''Authorization'', ''Bearer '' @ token), (''Content-Type'', ''application/json'')],
          Body = Some buf\<rparr>])"
proof (cases "Marshal_VercelRecord env (vercel_reqData zone r)")
  case (Inl e)
  then show ?thesis
    by (simp add: vercel_createRecord_def issued_def)
next
  case (Inr buf)
  show ?thesis
  proof (cases "NewRequest_error env ''POST'' (''https://api.vercel.com/v2/domains/'' @ zone @ ''/records'')")
    case (Some e)
    with Inr show ?thesis
      by (simp add: vercel_createRecord_def issued_def NewRequestWithContext_fail)
  next
    case None
    let ?q = "\<lparr>Method = ''POST'', URL = ''https://api.vercel.com/v2/domains/'' @ zone @ ''/records'',
          Header = [], Body = Some buf\<rparr>"
    obtain data err where "vercel_doRequest env token (Some ?q) sent =
      (Return data err, sent @ [?q\<lparr>Header := Header ?q @ [(''Authorization'', ''Bearer '' @ token),
                                          (''Content-Type'', ''application/json'')]\<rparr>])"
      by (rule vercel_doRequest_cases)
    with Inr None show ?thesis
      by (simp add: vercel_createRecord_def issued_def NewRequestWithContext_ok
          split: option.splits sum.splits)
  qed
qed

lemma vercel_createRecord_request:
  assumes "Marshal_VercelRecord env (vercel_reqData zone r) = Inr buf"
    and "NewRequest_error env ''POST''
           (''https://api.vercel.com/v2/domains/'' @ zone @ ''/records'') = None"
  shows "issued sent (vercel_createRecord env token zone r sent) =
    [\<lparr>Method = ''POST'', URL = ''https://api.vercel.com/v2/domains/'' @ zone @ ''/records'',
      Header = [(''Authorization'', ''Bearer '' @ token), (''Content-Type'', ''application/json'')],
      Body = Some buf\<rparr>]"
proof -
  let ?q = "\<lparr>Method = ''POST'', URL = ''https://api.vercel.com/v2/domains/'' @ zone @ ''/records'',
        Header = [], Body = Some buf\<rparr>"
  obtain data err where "vercel_doRequest env token (Some ?q) sent =
    (Return data err, sent @ [?q\<lparr>Header := Header ?q @ [(''Authorization'', ''Bearer '' @ token),
                                        (''Content-Type'', ''application/json'')]\<rparr>])"
    by (rule vercel_doRequest_cases)
  with assms show ?thesis
    by (simp add: vercel_createRecord_def issued_def NewRequestWithContext_ok
        split: option.splits sum.splits)
qed

lemma vercel_createRecord_error_zero:
  "vercel_createRecord env token zone r sent = (Return rec (Some e), sent') \<Longrightarrow> rec = Record_zero"
  by (auto simp: vercel_createRecord_def Let_def
      split: sum.splits prod.splits option.splits outcome.splits)

lemma vercel_createRecord_no_panic:
  "fst (vercel_createRecord env token zone r sent) \<noteq> Panic p"
proof (cases "Marshal_VercelRecord env (vercel_reqData zone r)")
  case (Inl e)
  then show ?thesis
    by (simp add: vercel_createRecord_def)
next
  case (Inr buf)
  show ?thesis
  proof (cases "NewRequest_error env ''POST'' (''https://api.vercel.com/v2/domains/'' @ zone @ ''/records'')")
    case (Some e)
    with Inr show ?thesis
      by (simp add: vercel_createRecord_def NewRequestWithContext_fail)
  next
    case None
    let ?q = "\<lparr>Method = ''POST'', URL = ''https://api.vercel.com/v2/domains/'' @ zone @ ''/records'',
          Header = [], Body = Some buf\<rparr>"
    obtain data err where "vercel_doRequest env token (Some ?q) sent =
      (Return data err, sent @ [?q\<lparr>Header := Header ?q @ [(''Authorization'', ''Bearer '' @ token),
                                          (''Content-Type'', ''application/json'')]\<rparr>])"
      by (rule vercel_doRequest_cases)
    with Inr None show ?thesis
      by (simp add: vercel_createRecord_def NewRequestWithContext_ok
          split: option.splits sum.splits)
  qed
qed

lemma vercel_createRecord_success:
  assumes "vercel_createRecord env token zone r sent = (Return rec None, sent')"
  shows "\<exists>buf response data result.
      Marshal_VercelRecord env (vercel_reqData zone r) = Inr buf \<and>
      Do env sent \<lparr>Method = ''POST'', URL = ''https://api.vercel.com/v2/domains/'' @ zone @ ''/records'',
          Header = [(''Authorization'', ''Bearer '' @ token), (''Content-Type'', ''application/json'')],
          Body = Some buf\<rparr> = Inr response \<and>
      ReadAll response = (data, None) \<and>
      Unmarshal_vercel_createRecordResponse env data = Inr result \<and>
      rec = \<lparr>ID = Uid result, Type = Type r, Name = normalizeRecordName (Name r) zone,
             Value = Value r, TTL = 0\<rparr>"
  using assms
  by (auto simp: vercel_createRecord_def vercel_doRequest_def NewRequestWithContext_def Let_def
      split: sum.splits prod.splits option.splits outcome.splits if_splits)

lemma vercel_deleteRecord_issued:
  "\<forall>q \<in> set (issued sent (vercel_deleteRecord env zone token r sent)). Method q = ''DELETE''"
proof (cases "NewRequest_error env ''DELETE''
    (''https://api.vercel.com/v2/domains/'' @ zone @ ''/records/'' @ ID r)")
  case (Some e)
  then show ?thesis
    by (simp add: vercel_deleteRecord_def issued_def NewRequestWithContext_fail)
next
  case None
  let ?q = "\<lparr>Method = ''DELETE'',
      URL = ''https://api.vercel.com/v2/domains/'' @ zone @ ''/records/'' @ ID r,
      Header = [], Body = None\<rparr>"
  obtain data err where "vercel_doRequest env token (Some ?q) sent =
      (Return data err, sent @ [?q\<lparr>Header := Header ?q @ [(''Authorization'', ''Bearer '' @ token),
                                          (''Content-Type'', ''application/json'')]\<rparr>])"
    by (rule vercel_doRequest_cases)
  with None show ?thesis
    by (simp add: vercel_deleteRecord_def issued_def NewRequestWithContext_ok
        split: option.splits)
qed

section \<open>Requests sent by create and update\<close>

lemma hetzner_doRequest_cases:
  obtains data err where "hetzner_doRequest env token (Some q) sent =
    (Return data err, sent @ [q\<lparr>Header := Header q @ [(''Auth-API-Token'', token)]\<rparr>])"
proof (cases "hetzner_doRequest env token (Some q) sent")
  case (Pair out s)
  with hetzner_doRequest_sent [of env token q sent] hetzner_doRequest_no_panic [of env token q sent]
  show ?thesis
    by (cases out) (auto intro: that)
qed

lemma getZoneData_sent:
  "snd (getZoneData env token name sent) = sent \<or>
   snd (getZoneData env token name sent) = sent @ [zone_request env token name]"
proof (cases "NewRequest_error env ''GET''
            (''https://dns.hetzner.com/api/v1/zones?name='' @ QueryEscape env name)")
  case (Some e)
  then show ?thesis
    by (simp add: getZoneData_def hetzner_doRequest_nil NewRequestWithContext_fail)
next
  case None
  let ?q = "\<lparr>Method = ''GET'',
        URL = ''https://dns.hetzner.com/api/v1/zones?name='' @ QueryEscape env name,
        Header = [], Body = None\<rparr>"
  obtain data err where "hetzner_doRequest env token (Some ?q) sent =
      (Return data err, sent @ [?q\<lparr>Header := Header ?q @ [(''Auth-API-Token'', token)]\<rparr>])"
    by (rule hetzner_doRequest_cases)
  with None show ?thesis
    by (simp add: getZoneData_def NewRequestWithContext_ok zone_request_def
        split: outcome.splits option.splits sum.splits)
qed

lemma hetzner_createRecord_sent:
  assumes "getZoneData env token zone sent = (out, s)"
  shows "snd (hetzner_createRecord env token zone r sent) = s \<or>
    (\<exists>zoneData buf. out = Return zoneData None \<and>
       Marshal_record env (outbound_record zoneData zone r) = Inr buf \<and>
       snd (hetzner_createRecord env token zone r sent) =
         s @ [\<lparr>Method = ''POST'', URL = ''https://dns.hetzner.com/api/v1/records'',
               Header = [(''Auth-API-Token'', token)], Body = Some buf\<rparr>])"
proof (cases out)
  case (Panic p)
  with assms show ?thesis
    by (simp add: hetzner_createRecord_def)
next
  case (Return zoneData err)
  show ?thesis
  proof (cases err)
    case (Some e)
    with Return assms show ?thesis
      by (simp add: hetzner_createRecord_def)
  next
    case None
    show ?thesis
    proof (cases "Marshal_record env (outbound_record zoneData zone r)")
      case (Inl e)
      with None Return assms show ?thesis
        by (simp add: hetzner_createRecord_def)
    next
      case (Inr buf)
      show ?thesis
      proof (cases "NewRequest_error env ''POST'' ''https://dns.hetzner.com/api/v1/records''")
        case (Some e)
        with Inr None Return assms show ?thesis
          by (simp add: hetzner_createRecord_def NewRequestWithContext_fail hetzner_doRequest_nil)
      next
        case ok: None
        let ?q = "\<lparr>Method = ''POST'', URL = ''https://dns.hetzner.com/api/v1/records'',
               Header = [], Body = Some buf\<rparr>"
        obtain data err' where "hetzner_doRequest env token (Some ?q) s =
            (Return data err', s @ [?q\<lparr>Header := Header ?q @ [(''Auth-API-Token'', token)]\<rparr>])"
          by (rule hetzner_doRequest_cases)
        with ok Inr None Return assms show ?thesis
          by (simp add: hetzner_createRecord_def NewRequestWithContext_ok
              split: option.splits sum.splits)
      qed
    qed
  qed
qed

lemma hetzner_createRecord_methods:
  "\<forall>q \<in> set (issued sent (hetzner_createRecord env token zone r sent)).
     Method q = ''GET'' \<or> Method q = ''POST''"
proof -
  obtain out s where g: "getZoneData env token zone sent = (out, s)"
    by (cases "getZoneData env token zone sent")
  with getZoneData_sent [of env token zone sent]
  have s: "s = sent \<or> s = sent @ [zone_request env token zone]"
    by simp
  from hetzner_createRecord_sent [OF g, of r] s show ?thesis
    by (auto simp: issued_def zone_request_def)
qed

lemma vercel_createRecord_methods:
  "\<forall>q \<in> set (issued sent (vercel_createRecord env token zone r sent)). Method q = ''POST''"
  using vercel_createRecord_issued [of sent env token zone r] by auto

section \<open>The clients run on the sample provider\<close>

lemma Seconds_zero: "Seconds 0 = 0"
  by (simp add: Seconds_def int64_quo_def int64_rem_def f64_def)

lemma sample_normalize: "normalizeRecordName ''www.example.com.'' ''example.com'' = ''www''"
  by (simp add: normalizeRecordName_def unFQDN_def TrimSuffix_def HasSuffix_def)

lemma sample_getZoneData:
  "getZoneData (sample_env [z] st) ''tok'' ''example.com'' [] =
     (Return z None,
      [\<lparr>Method = ''GET'', URL = ''https://dns.hetzner.com/api/v1/zones?name=example.com'',
        Header = [(''Auth-API-Token'', ''tok'')], Body = None\<rparr>])"
  by (simp add: getZoneData_def hetzner_doRequest_def sample_env_def NewRequestWithContext_def)

lemma sample_hetzner_createRecord:
  "hetzner_createRecord (sample_env [\<lparr>zone_ID = ''z1'', zone_TTL = 300\<rparr>] st) ''tok'' ''example.com''
      (sample_Record ident ttl) [] =
     (Return \<lparr>ID = ''r1'', Type = ''TXT'', Name = ''www'', Value = ''v'', TTL = 300 * Second\<rparr> None,
      [\<lparr>Method = ''GET'', URL = ''https://dns.hetzner.com/api/v1/zones?name=example.com'',
        Header = [(''Auth-API-Token'', ''tok'')], Body = None\<rparr>,
       \<lparr>Method = ''POST'', URL = ''https://dns.hetzner.com/api/v1/records'',
        Header = [(''Auth-API-Token'', ''tok'')], Body = Some ''{}''\<rparr>])"
  by (simp add: hetzner_createRecord_def sample_getZoneData)
     (simp add: hetzner_doRequest_def sample_env_def NewRequestWithContext_def
        inbound_Record_def sample_record_def seconds_to_Duration_def)

lemma sample_hetzner_updateRecord:
  "hetzner_updateRecord (sample_env [\<lparr>zone_ID = ''z1'', zone_TTL = 300\<rparr>] st) ''tok'' ''example.com''
      (sample_Record ''r1'' ttl) [] =
     (Return \<lparr>ID = ''r1'', Type = ''TXT'', Name = ''www'', Value = ''v'', TTL = 300 * Second\<rparr> None,
      [\<lparr>Method = ''GET'', URL = ''https://dns.hetzner.com/api/v1/zones?name=example.com'',
        Header = [(''Auth-API-Token'', ''tok'')], Body = None\<rparr>,
       \<lparr>Method = ''PUT'', URL = ''https://dns.hetzner.com/api/v1/records/r1'',
        Header = [(''Auth-API-Token'', ''tok'')], Body = Some ''{}''\<rparr>])"
  by (simp add: hetzner_updateRecord_def sample_getZoneData)
     (simp add: hetzner_doRequest_def sample_env_def NewRequestWithContext_def
        inbound_Record_def sample_record_def seconds_to_Duration_def sample_Record_def)

lemma sample_vercel_createRecord:
  "vercel_createRecord (sample_env zs st) ''tok'' ''example.com'' (sample_Record ident ttl) sent =
     (Return \<lparr>ID = ''rec_1'', Type = ''TXT'', Name = ''www'', Value = ''v'', TTL = 0\<rparr> None,
      sent @ [\<lparr>Method = ''POST'', URL = ''https://api.vercel.com/v2/domains/example.com/records'',
        Header = [(''Authorization'', ''Bearer tok''), (''Content-Type'', ''application/json'')],
        Body = Some ''{}''\<rparr>])"
  by (simp add: vercel_createRecord_def vercel_doRequest_def sample_env_def
      NewRequestWithContext_def sample_Record_def sample_normalize)

lemma sample_vercel_deleteRecord:
  "vercel_deleteRecord (sample_env zs st) ''example.com'' ''tok'' (sample_Record ''rec_0'' ttl) [] =
     (Return () (if st < 200 \<or> 300 \<le> st then Some (ErrStatus st) else None),
      [\<lparr>Method = ''DELETE'', URL = ''https://api.vercel.com/v2/domains/example.com/records/rec_0'',
        Header = [(''Authorization'', ''Bearer tok''), (''Content-Type'', ''application/json'')],
        Body = None\<rparr>])"
  by (simp add: vercel_deleteRecord_def vercel_doRequest_def sample_env_def
      NewRequestWithContext_def sample_Record_def)

section \<open>Claims about create, update and upsert\<close>

text \<open>
  C6. For every record, \<open>createOrUpdateRecord\<close> of both clients dispatches on the
  identifier alone: when the record's ID is the empty string it is exactly the create
  path, and no \<^verbatim>\<open>PUT\<close> (update) or \<^verbatim>\<open>DELETE\<close> request is sent; when the ID is not empty
  it is exactly the update path.
\<close>

theorem createOrUpdateRecord_dispatch:
  "(ID r = [] \<longrightarrow>
      hetzner_createOrUpdateRecord env token zone r sent = hetzner_createRecord env token zone r sent \<and>
      vercel_createOrUpdateRecord env token zone r sent = vercel_createRecord env token zone r sent \<and>
      (\<forall>q \<in> set (issued sent (hetzner_createOrUpdateRecord env token zone r sent)).
         Method q \<noteq> ''PUT'' \<and> Method q \<noteq> ''DELETE'') \<and>
      (\<forall>q \<in> set (issued sent (vercel_createOrUpdateRecord env token zone r sent)).
         Method q \<noteq> ''PUT'' \<and> Method q \<noteq> ''DELETE'')) \<and>
   (ID r \<noteq> [] \<longrightarrow>
      hetzner_createOrUpdateRecord env token zone r sent = hetzner_updateRecord env token zone r sent \<and>
      vercel_createOrUpdateRecord env token zone r sent = vercel_updateRecord env token zone r sent)"
proof (intro conjI impI)
  assume e: "ID r = []"
  show h: "hetzner_createOrUpdateRecord env token zone r sent = hetzner_createRecord env token zone r sent"
    using e by (simp add: hetzner_createOrUpdateRecord_def)
  show v: "vercel_createOrUpdateRecord env token zone r sent = vercel_createRecord env token zone r sent"
    using e by (simp add: vercel_createOrUpdateRecord_def)
  show "\<forall>q \<in> set (issued sent (hetzner_createOrUpdateRecord env token zone r sent)).
         Method q \<noteq> ''PUT'' \<and> Method q \<noteq> ''DELETE''"
    unfolding h using hetzner_createRecord_methods [of sent env token zone r] by auto
  show "\<forall>q \<in> set (issued sent (vercel_createOrUpdateRecord env token zone r sent)).
         Method q \<noteq> ''PUT'' \<and> Method q \<noteq> ''DELETE''"
    unfolding v using vercel_createRecord_methods [of sent env token zone r] by auto
next
  assume "ID r \<noteq> []"
  then show "hetzner_createOrUpdateRecord env token zone r sent = hetzner_updateRecord env token zone r sent"
    by (simp add: hetzner_createOrUpdateRecord_def)
next
  assume "ID r \<noteq> []"
  then show "vercel_createOrUpdateRecord env token zone r sent = vercel_updateRecord env token zone r sent"
    by (simp add: vercel_createOrUpdateRecord_def)
qed


theorem createOrUpdateRecord_dispatch_witness:
  "ID (sample_Record [] 0) = [] \<and>
   map Method (issued [] (hetzner_createOrUpdateRecord
      (sample_env [\<lparr>zone_ID = ''z1'', zone_TTL = 300\<rparr>] 200) ''tok'' ''example.com''
      (sample_Record [] 0) [])) = [''GET'', ''POST''] \<and>
   map Method (issued [] (vercel_createOrUpdateRecord
      (sample_env [\<lparr>zone_ID = ''z1'', zone_TTL = 300\<rparr>] 200) ''tok'' ''example.com''
      (sample_Record [] 0) [])) = [''POST''] \<and>
   ID (sample_Record ''r1'' 0) \<noteq> [] \<and>
   map Method (issued [] (hetzner_createOrUpdateRecord
      (sample_env [\<lparr>zone_ID = ''z1'', zone_TTL = 300\<rparr>] 200) ''tok'' ''example.com''
      (sample_Record ''r1'' 0) [])) = [''GET'', ''PUT'']"
proof -
  let ?env = "sample_env [\<lparr>zone_ID = ''z1'', zone_TTL = 300\<rparr>] 200"
  have a: "ID (sample_Record [] 0) = []" and b: "ID (sample_Record ''r1'' 0) \<noteq> []"
    by (simp_all add: sample_Record_def)
  from a createOrUpdateRecord_dispatch [of "sample_Record [] 0" ?env "''tok''" "''example.com''" "[]"]
  have "hetzner_createOrUpdateRecord ?env ''tok'' ''example.com'' (sample_Record [] 0) []
      = hetzner_createRecord ?env ''tok'' ''example.com'' (sample_Record [] 0) []"
    and "vercel_createOrUpdateRecord ?env ''tok'' ''example.com'' (sample_Record [] 0) []
      = vercel_createRecord ?env ''tok'' ''example.com'' (sample_Record [] 0) []"
    by simp_all
  moreover
  from b createOrUpdateRecord_dispatch [of "sample_Record ''r1'' 0" ?env "''tok''" "''example.com''" "[]"]
  have "hetzner_createOrUpdateRecord ?env ''tok'' ''example.com'' (sample_Record ''r1'' 0) []
      = hetzner_updateRecord ?env ''tok'' ''example.com'' (sample_Record ''r1'' 0) []"
    by simp
  ultimately show ?thesis
    using a b
    by (simp add: sample_hetzner_createRecord sample_hetzner_updateRecord
        sample_vercel_createRecord issued_def)
qed

text \<open>
  C7. In the Vercel update path (delete, then create): when the delete step returns an
  error, \<open>updateRecord\<close> returns that error with the zero record and sends nothing after
  the delete step, so no create request (\<^verbatim>\<open>POST\<close>) is sent; when the delete step succeeds,
  \<open>updateRecord\<close> is one run of \<open>createRecord\<close> from there, which sends at most one create
  request.
\<close>

theorem vercel_updateRecord_delete_then_create:
  "(vercel_deleteRecord env zone token r sent = (Return u (Some err), sent') \<longrightarrow>
      vercel_updateRecord env token zone r sent = (Return Record_zero (Some err), sent') \<and>
      (\<forall>q \<in> set (issued sent (vercel_updateRecord env token zone r sent)).
         Method q \<noteq> ''POST'')) \<and>
   (vercel_deleteRecord env zone token r sent = (Return u None, sent') \<longrightarrow>
      vercel_updateRecord env token zone r sent = vercel_createRecord env token zone r sent' \<and>
      length (issued sent' (vercel_createRecord env token zone r sent')) \<le> 1)"
proof (intro conjI impI)
  assume d: "vercel_deleteRecord env zone token r sent = (Return u (Some err), sent')"
  then show upd: "vercel_updateRecord env token zone r sent = (Return Record_zero (Some err), sent')"
    by (simp add: vercel_updateRecord_def)
  have "issued sent (vercel_updateRecord env token zone r sent)
      = issued sent (vercel_deleteRecord env zone token r sent)"
    using d upd by (simp add: issued_def)
  with vercel_deleteRecord_issued [of sent env zone token r]
  show "\<forall>q \<in> set (issued sent (vercel_updateRecord env token zone r sent)). Method q \<noteq> ''POST''"
    by auto
next
  assume d: "vercel_deleteRecord env zone token r sent = (Return u None, sent')"
  obtain out s where c: "vercel_createRecord env token zone r sent' = (out, s)"
    by (cases "vercel_createRecord env token zone r sent'")
  show "vercel_updateRecord env token zone r sent = vercel_createRecord env token zone r sent'"
  proof (cases out)
    case (Panic p)
    with c vercel_createRecord_no_panic [of env token zone r sent' p] show ?thesis
      by simp
  next
    case (Return newRecord e)
    show ?thesis
    proof (cases e)
      case None
      with Return c d show ?thesis
        by (simp add: vercel_updateRecord_def)
    next
      case (Some e')
      with Return c have "newRecord = Record_zero"
        by (auto dest: vercel_createRecord_error_zero)
      with Some Return c d show ?thesis
        by (simp add: vercel_updateRecord_def)
    qed
  qed
next
  show "length (issued sent' (vercel_createRecord env token zone r sent')) \<le> 1"
    using vercel_createRecord_issued [of sent' env token zone r] by auto
qed

theorem vercel_updateRecord_delete_then_create_witness:
  "vercel_deleteRecord (sample_env [] 500) ''example.com'' ''tok'' (sample_Record ''rec_0'' 0) [] =
     (Return () (Some (ErrStatus 500)),
      [\<lparr>Method = ''DELETE'', URL = ''https://api.vercel.com/v2/domains/example.com/records/rec_0'',
        Header = [(''Authorization'', ''Bearer tok''), (''Content-Type'', ''application/json'')],
        Body = None\<rparr>]) \<and>
   vercel_updateRecord (sample_env [] 500) ''tok'' ''example.com'' (sample_Record ''rec_0'' 0) [] =
     (Return Record_zero (Some (ErrStatus 500)),
      [\<lparr>Method = ''DELETE'', URL = ''https://api.vercel.com/v2/domains/example.com/records/rec_0'',
        Header = [(''Authorization'', ''Bearer tok''), (''Content-Type'', ''application/json'')],
        Body = None\<rparr>]) \<and>
   fst (vercel_deleteRecord (sample_env [] 200) ''example.com'' ''tok'' (sample_Record ''rec_0'' 0) []) =
     Return () None \<and>
   map Method (issued [] (vercel_updateRecord (sample_env [] 200) ''tok'' ''example.com''
      (sample_Record ''rec_0'' 0) [])) = [''DELETE'', ''POST'']"
proof -
  let ?del = "\<lparr>Method = ''DELETE'', URL = ''https://api.vercel.com/v2/domains/example.com/records/rec_0'',
        Header = [(''Authorization'', ''Bearer tok''), (''Content-Type'', ''application/json'')],
        Body = None\<rparr>"
  have bad: "vercel_deleteRecord (sample_env [] 500) ''example.com'' ''tok'' (sample_Record ''rec_0'' 0) []
      = (Return () (Some (ErrStatus 500)), [?del])"
    by (simp add: sample_vercel_deleteRecord)
  have good: "vercel_deleteRecord (sample_env [] 200) ''example.com'' ''tok'' (sample_Record ''rec_0'' 0) []
      = (Return () None, [?del])"
    by (simp add: sample_vercel_deleteRecord)
  from vercel_updateRecord_delete_then_create
    [of "sample_env [] 500" "''example.com''" "''tok''" "sample_Record ''rec_0'' 0" "[]" "()"
        "ErrStatus 500" "[?del]"] bad
  have 1: "vercel_updateRecord (sample_env [] 500) ''tok'' ''example.com'' (sample_Record ''rec_0'' 0) []
      = (Return Record_zero (Some (ErrStatus 500)), [?del])"
    by simp
  from vercel_updateRecord_delete_then_create
    [of "sample_env [] 200" "''example.com''" "''tok''" "sample_Record ''rec_0'' 0" "[]" "()"
        _ "[?del]"] good
  have 2: "vercel_updateRecord (sample_env [] 200) ''tok'' ''example.com'' (sample_Record ''rec_0'' 0) []
      = vercel_createRecord (sample_env [] 200) ''tok'' ''example.com'' (sample_Record ''rec_0'' 0) [?del]"
    by simp
  show ?thesis
    using bad good 1
    by (simp add: 2 sample_vercel_createRecord issued_def)
qed

text \<open>
  C10. For every successful Vercel \<open>createRecord\<close> call the returned record is built from
  the input and the \<^verbatim>\<open>uid\<close> decoded from the response body: the ID is the decoded uid,
  type and value are the input's, the name is \<open>normalizeRecordName\<close> of the input name and
  the zone, and the TTL is zero; the response is decoded into a struct that has the uid
  field only. The same holds for the record returned by a successful Vercel
  \<open>createOrUpdateRecord\<close>.
\<close>

theorem vercel_createRecord_result:
  "(vercel_createRecord env token zone r sent = (Return rec None, sent') \<longrightarrow>
      (\<exists>buf response data result.
         Marshal_VercelRecord env (vercel_reqData zone r) = Inr buf \<and>
         Do env sent \<lparr>Method = ''POST'',
             URL = ''https://api.vercel.com/v2/domains/'' @ zone @ ''/records'',
             Header = [(''Authorization'', ''Bearer '' @ token),
                       (''Content-Type'', ''application/json'')],
             Body = Some buf\<rparr> = Inr response \<and>
         ReadAll response = (data, None) \<and>
         Unmarshal_vercel_createRecordResponse env data = Inr result \<and>
         rec = \<lparr>ID = Uid result, Type = Type r, Name = normalizeRecordName (Name r) zone,
                Value = Value r, TTL = 0\<rparr>)) \<and>
   (vercel_createOrUpdateRecord env token zone r sent = (Return rec None, sent') \<longrightarrow>
      (\<exists>data result.
         Unmarshal_vercel_createRecordResponse env data = Inr result \<and>
         rec = \<lparr>ID = Uid result, Type = Type r, Name = normalizeRecordName (Name r) zone,
                Value = Value r, TTL = 0\<rparr>))"
proof (intro conjI impI)
  assume "vercel_createRecord env token zone r sent = (Return rec None, sent')"
  then show "\<exists>buf response data result.
         Marshal_VercelRecord env (vercel_reqData zone r) = Inr buf \<and>
         Do env sent \<lparr>Method = ''POST'',
             URL = ''https://api.vercel.com/v2/domains/'' @ zone @ ''/records'',
             Header = [(''Authorization'', ''Bearer '' @ token),
                       (''Content-Type'', ''application/json'')],
             Body = Some buf\<rparr> = Inr response \<and>
         ReadAll response = (data, None) \<and>
         Unmarshal_vercel_createRecordResponse env data = Inr result \<and>
         rec = \<lparr>ID = Uid result, Type = Type r, Name = normalizeRecordName (Name r) zone,
                Value = Value r, TTL = 0\<rparr>"
    by (rule vercel_createRecord_success)
next
  assume u: "vercel_createOrUpdateRecord env token zone r sent = (Return rec None, sent')"
  have "\<exists>s. vercel_createRecord env token zone r s = (Return rec None, sent')"
  proof (cases "length (ID r) = 0")
    case True
    with u show ?thesis
      by (auto simp: vercel_createOrUpdateRecord_def)
  next
    case False
    with u have "vercel_updateRecord env token zone r sent = (Return rec None, sent')"
      by (simp add: vercel_createOrUpdateRecord_def)
    then show ?thesis
      by (auto simp: vercel_updateRecord_def split: prod.splits outcome.splits option.splits)
  qed
  then obtain s where "vercel_createRecord env token zone r s = (Return rec None, sent')"
    by blast
  from vercel_createRecord_success [OF this]
  show "\<exists>data result.
         Unmarshal_vercel_createRecordResponse env data = Inr result \<and>
         rec = \<lparr>ID = Uid result, Type = Type r, Name = normalizeRecordName (Name r) zone,
                Value = Value r, TTL = 0\<rparr>"
    by blast
qed

theorem vercel_createRecord_result_witness:
  "vercel_createRecord (sample_env [] 200) ''tok'' ''example.com'' (sample_Record [] (300 * Second)) [] =
     (Return \<lparr>ID = ''rec_1'', Type = ''TXT'', Name = ''www'', Value = ''v'', TTL = 0\<rparr> None,
      [\<lparr>Method = ''POST'', URL = ''https://api.vercel.com/v2/domains/example.com/records'',
        Header = [(''Authorization'', ''Bearer tok''), (''Content-Type'', ''application/json'')],
        Body = Some ''{}''\<rparr>]) \<and>
   vercel_createOrUpdateRecord (sample_env [] 200) ''tok'' ''example.com''
       (sample_Record [] (300 * Second)) [] =
     (Return \<lparr>ID = ''rec_1'', Type = ''TXT'', Name = ''www'', Value = ''v'', TTL = 0\<rparr> None,
      [\<lparr>Method = ''POST'', URL = ''https://api.vercel.com/v2/domains/example.com/records'',
        Header = [(''Authorization'', ''Bearer tok''), (''Content-Type'', ''application/json'')],
        Body = Some ''{}''\<rparr>]) \<and>
   (\<exists>data result.
      Unmarshal_vercel_createRecordResponse (sample_env [] 200) data = Inr result \<and>
      \<lparr>ID = ''rec_1'', Type = ''TXT'', Name = ''www'', Value = ''v'', TTL = 0\<rparr> =
      \<lparr>ID = Uid result, Type = Type (sample_Record [] (300 * Second)),
       Name = normalizeRecordName (Name (sample_Record [] (300 * Second))) ''example.com'',
       Value = Value (sample_Record [] (300 * Second)), TTL = 0\<rparr>)"
proof -
  let ?post = "\<lparr>Method = ''POST'', URL = ''https://api.vercel.com/v2/domains/example.com/records'',
        Header = [(''Authorization'', ''Bearer tok''), (''Content-Type'', ''application/json'')],
        Body = Some ''{}''\<rparr>"
  let ?rec = "\<lparr>ID = ''rec_1'', Type = ''TXT'', Name = ''www'', Value = ''v'', TTL = 0\<rparr>"
  have c: "vercel_createRecord (sample_env [] 200) ''tok'' ''example.com''
      (sample_Record [] (300 * Second)) [] = (Return ?rec None, [?post])"
    by (simp add: sample_vercel_createRecord)
  have u: "vercel_createOrUpdateRecord (sample_env [] 200) ''tok'' ''example.com''
      (sample_Record [] (300 * Second)) [] = (Return ?rec None, [?post])"
  proof -
    have "ID (sample_Record [] (300 * Second)) = []"
      by (simp add: sample_Record_def)
    then show ?thesis
      by (simp add: vercel_createOrUpdateRecord_def sample_vercel_createRecord)
  qed
  from vercel_createRecord_result
    [of "sample_env [] 200" "''tok''" "''example.com''" "sample_Record [] (300 * Second)" "[]"
        ?rec "[?post]"] u
  have "\<exists>data result.
      Unmarshal_vercel_createRecordResponse (sample_env [] 200) data = Inr result \<and>
      ?rec = \<lparr>ID = Uid result, Type = Type (sample_Record [] (300 * Second)),
       Name = normalizeRecordName (Name (sample_Record [] (300 * Second))) ''example.com'',
       Value = Value (sample_Record [] (300 * Second)), TTL = 0\<rparr>"
    by blast
  with c u show ?thesis
    by blast
qed

section \<open>Facts about durations and rounding\<close>

lemma trunc_math_Max: "trunc (math_Max x 60) = max (trunc x) 60"
proof (cases "60 < x")
  case True
  then have "60 \<le> \<lfloor>x\<rfloor>"
    by (simp add: le_floor_iff)
  with True show ?thesis
    by (simp add: math_Max_def trunc_def)
next
  case False
  then have "\<lfloor>x\<rfloor> \<le> 60"
    by (simp add: floor_le_iff)
  moreover have "x < 0 \<Longrightarrow> \<lceil>x\<rceil> \<le> 60"
    by (simp add: ceiling_le_iff)
  ultimately show ?thesis
    using False by (simp add: math_Max_def trunc_def)
qed

lemma round_half_even_of_int: "round_half_even (of_int j) = j"
  by (simp add: round_half_even_def)

lemma ilog2_of_int:
  assumes "0 < i" and "i < 2 ^ 53"
  shows "ilog2 (of_int i) \<le> 52"
proof -
  have "nat i < 2 ^ 53"
    using assms by (simp add: nat_less_iff)
  then have "floorlog 2 (nat i) \<le> 53"
    by (simp add: floorlog_le_iff)
  moreover have "(1::rat) \<le> of_int i"
    using assms by simp
  ultimately show ?thesis
    by (simp add: ilog2_def)
qed

lemma ulp_of_int:
  assumes "i \<noteq> 0" and "\<bar>i\<bar> < 2 ^ 53"
  shows "\<exists>k. ulp (of_int i) = 1 / 2 ^ k"
proof -
  have "ilog2 (of_int \<bar>i\<bar>) \<le> 52"
    using assms by (intro ilog2_of_int) simp_all
  then have e: "ilog2 \<bar>of_int i\<bar> \<le> 52"
    by simp
  show ?thesis
  proof (cases "ilog2 \<bar>of_int i :: rat\<bar> = 52")
    case True
    then have "ulp (of_int i) = 1 / 2 ^ 0"
      by (simp add: ulp_def)
    then show ?thesis by blast
  next
    case False
    with e have "ulp (of_int i) = 1 / 2 ^ nat (52 - ilog2 \<bar>of_int i\<bar>)"
      by (simp add: ulp_def Let_def)
    then show ?thesis by blast
  qed
qed

lemma f64_of_int:
  assumes "\<bar>i\<bar> < 2 ^ 53"
  shows "f64 (of_int i) = of_int i"
proof (cases "i = 0")
  case True
  then show ?thesis by (simp add: f64_def)
next
  case False
  with assms obtain k where k: "ulp (of_int i) = 1 / 2 ^ k"
    using ulp_of_int by blast
  have "of_int i / ulp (of_int i) = (of_int (i * 2 ^ k) :: rat)"
    by (simp add: k)
  then have "round_half_even (of_int i / ulp (of_int i)) = i * 2 ^ k"
    by (simp only: round_half_even_of_int)
  with False show ?thesis
    by (simp add: f64_def k)
qed

lemma sdiv_whole: "(t * 1000000000) sdiv 1000000000 = (t::int)"
  by (simp add: signed_divide_int_def abs_mult sgn_mult mult_sgn_abs)

lemma smod_whole: "(t * 1000000000) smod 1000000000 = (0::int)"
  by (simp add: signed_modulo_int_def abs_mult)

lemma sint_word_of_int_64:
  assumes "- (2 ^ 63) \<le> k" and "k < 2 ^ 63"
  shows "sint (word_of_int k :: 64 word) = k"
  using assms by (simp add: signed_of_int signed_take_bit_int_eq_self)

lemma Seconds_whole:
  assumes "\<bar>t\<bar> \<le> 9223372036"
  shows "Seconds (word_of_int t * Second) = of_int t"
proof -
  have w: "word_of_int t * Second = (word_of_int (t * 1000000000) :: 64 word)"
    by (simp add: Second_def)
  have "- (2 ^ 63) \<le> t * 1000000000" and "t * 1000000000 < 2 ^ 63"
    using assms by simp_all
  then have s: "sint (word_of_int (t * 1000000000) :: 64 word) = t * 1000000000"
    by (rule sint_word_of_int_64)
  have "- (2 ^ 63) \<le> t" and "t < 2 ^ 63"
    using assms by simp_all
  then have st: "sint (word_of_int t :: 64 word) = t"
    by (rule sint_word_of_int_64)
  have sS: "sint Second = 1000000000"
    by (simp add: Second_def)
  have q: "int64_quo (word_of_int (t * 1000000000)) Second = word_of_int t"
    by (simp only: int64_quo_def s sS sdiv_whole)
  have "int64_rem (word_of_int (t * 1000000000)) Second = word_of_int 0"
    by (simp only: int64_rem_def s sS smod_whole)
  then have r: "int64_rem (word_of_int (t * 1000000000)) Second = 0"
    by simp
  have f: "f64 (of_int t) = of_int t"
    using assms by (intro f64_of_int) simp
  have z: "f64 0 = 0"
    by (simp add: f64_def)
  have "Seconds (word_of_int (t * 1000000000)) =
      f64 (f64 (of_int (sint (word_of_int t :: 64 word))) + f64 (f64 (of_int (sint (0 :: 64 word))) / 1000000000))"
    by (simp only: Seconds_def Let_def q r)
  also have "\<dots> = of_int t"
    by (simp add: st f z)
  finally show ?thesis
    by (simp only: w)
qed

text \<open>
  A duration with a nanosecond part can round up in \<^verbatim>\<open>Seconds\<close>: 16777216.999999999
  seconds become 16777217, since neighbouring \<^verbatim>\<open>float64\<close> numbers are \<open>2\<^sup>-\<^sup>2\<^sup>8\<close> apart
  there.
\<close>

lemma floorlog_2_1: "floorlog 2 (Suc 0) = Suc 0"
  by (simp add: compute_floorlog)

lemma frac_rounded: "f64 (999999999 / 1000000000) = 9007199245733793 / 9007199254740992"
proof -
  have "\<lceil>1000000000 / 999999999 :: rat\<rceil> = 2"
    by (simp add: ceiling_eq_iff)
  then have e: "ilog2 (999999999 / 1000000000) = - 1"
    by (simp add: ilog2_def floorlog_2_1)
  have u: "ulp (999999999 / 1000000000) = 1 / 2 ^ 53"
    by (simp add: ulp_def e)
  have "\<lfloor>999999999 / 1000000000 / (1 / 2 ^ 53) :: rat\<rfloor> = 9007199245733792"
    by (simp add: floor_eq_iff)
  then show ?thesis
    by (simp add: f64_def u round_half_even_def)
qed

lemma floorlog_2_16777216: "floorlog 2 16777216 = 25"
  by (simp add: compute_floorlog)

lemma sum_rounded:
  "f64 (151115736459027892572065 / 9007199254740992) = 16777217"
proof -
  have "\<lfloor>151115736459027892572065 / 9007199254740992 :: rat\<rfloor> = 16777216"
    by (simp add: floor_eq_iff)
  then have e: "ilog2 (151115736459027892572065 / 9007199254740992) = 24"
    by (simp add: ilog2_def floorlog_2_16777216)
  have u: "ulp (151115736459027892572065 / 9007199254740992) = 1 / 2 ^ 28"
    by (simp add: ulp_def e)
  have "\<lfloor>151115736459027892572065 / 9007199254740992 / (1 / 2 ^ 28) :: rat\<rfloor>
      = 4503599895805951"
    by (simp add: floor_eq_iff)
  then show ?thesis
    by (simp add: f64_def u round_half_even_def)
qed

lemma Seconds_rounds_up: "Seconds 16777216999999999 = 16777217"
proof -
  have q: "int64_quo 16777216999999999 Second = 16777216"
    by (simp add: int64_quo_def Second_def signed_divide_int_def)
  have r: "int64_rem 16777216999999999 Second = 999999999"
    by (simp add: int64_rem_def Second_def signed_modulo_int_def)
  have a: "f64 (of_int 16777216) = of_int 16777216"
    by (rule f64_of_int) simp
  have b: "f64 (of_int 999999999) = of_int 999999999"
    by (rule f64_of_int) simp
  show ?thesis
    using a b by (simp add: Seconds_def q r frac_rounded sum_rounded)
qed

lemma Seconds_rounds_up_payload:
  "vercel_TTL (vercel_reqData zone (sample_Record [] 16777216999999999)) = 16777217"
  by (simp add: vercel_reqData_def sample_Record_def Seconds_rounds_up float_to_int_def
      trunc_def math_Max_def)

section \<open>Facts about the TTL translation\<close>

lemma inbound_loop_map:
  "inbound_loop zoneData rs records = records @ map (inbound_Record zoneData) rs"
  by (induction rs arbitrary: records) simp_all

lemma inbound_Record_TTL:
  "TTL (inbound_Record zoneData w) =
     (case record_TTL w of
        None \<Rightarrow> seconds_to_Duration (zone_TTL zoneData)
      | Some ttl \<Rightarrow> seconds_to_Duration ttl)"
  by (simp add: inbound_Record_def split: option.splits)

lemma outbound_record_TTL:
  "record_TTL (outbound_record zoneData zone r) = Some (float_to_int (Seconds (TTL r)))"
  by (simp add: outbound_record_def ptr_def)

lemma hetzner_createRecord_request:
  assumes "zone_listing env token zone sent result" and "Zones result = [zoneData]"
    and "Marshal_record env (outbound_record zoneData zone r) = Inr buf"
    and "NewRequest_error env ''POST'' ''https://dns.hetzner.com/api/v1/records'' = None"
  shows "snd (hetzner_createRecord env token zone r sent) =
    sent @ [zone_request env token zone,
            \<lparr>Method = ''POST'', URL = ''https://dns.hetzner.com/api/v1/records'',
             Header = [(''Auth-API-Token'', token)], Body = Some buf\<rparr>]"
proof -
  let ?s = "sent @ [zone_request env token zone]"
  let ?q = "\<lparr>Method = ''POST'', URL = ''https://dns.hetzner.com/api/v1/records'',
               Header = [], Body = Some buf\<rparr>"
  have g: "getZoneData env token zone sent = (Return zoneData None, ?s)"
    using assms(1,2) by (rule getZoneData_single)
  obtain data err where "hetzner_doRequest env token (Some ?q) ?s =
      (Return data err, ?s @ [?q\<lparr>Header := Header ?q @ [(''Auth-API-Token'', token)]\<rparr>])"
    by (rule hetzner_doRequest_cases)
  with g assms(3,4) show ?thesis
    by (simp add: hetzner_createRecord_def NewRequestWithContext_ok
        split: option.splits sum.splits)
qed

lemma hetzner_updateRecord_request:
  assumes "zone_listing env token zone sent result" and "Zones result = [zoneData]"
    and "Marshal_record env (outbound_record zoneData zone r) = Inr buf"
    and "NewRequest_error env ''PUT'' (''https://dns.hetzner.com/api/v1/records/'' @ ID r) = None"
  shows "snd (hetzner_updateRecord env token zone r sent) =
    sent @ [zone_request env token zone,
            \<lparr>Method = ''PUT'', URL = ''https://dns.hetzner.com/api/v1/records/'' @ ID r,
             Header = [(''Auth-API-Token'', token)], Body = Some buf\<rparr>]"
proof -
  let ?s = "sent @ [zone_request env token zone]"
  let ?q = "\<lparr>Method = ''PUT'', URL = ''https://dns.hetzner.com/api/v1/records/'' @ ID r,
               Header = [], Body = Some buf\<rparr>"
  have g: "getZoneData env token zone sent = (Return zoneData None, ?s)"
    using assms(1,2) by (rule getZoneData_single)
  obtain data err where "hetzner_doRequest env token (Some ?q) ?s =
      (Return data err, ?s @ [?q\<lparr>Header := Header ?q @ [(''Auth-API-Token'', token)]\<rparr>])"
    by (rule hetzner_doRequest_cases)
  with g assms(3,4) show ?thesis
    by (simp add: hetzner_updateRecord_def NewRequestWithContext_ok
        split: option.splits sum.splits)
qed

lemma hetzner_getAllRecords_success:
  assumes "getZoneData env token zone sent = (Return zoneData None, sent1)"
    and "hetzner_getAllRecords env token zone sent = (Return recs None, sent2)"
  shows "\<exists>data result. Unmarshal_getAllRecordsResponse env data = Inr result \<and>
      recs = map (inbound_Record zoneData) (Records result)"
  using assms
  by (auto simp: hetzner_getAllRecords_def inbound_loop_map
      split: prod.splits outcome.splits option.splits sum.splits)

lemma sample_zone_listing:
  "zone_listing (sample_env zs st) ''tok'' ''example.com'' [] \<lparr>Zones = zs\<rparr>"
  by (simp add: zone_listing_def sample_env_def zone_request_def)

lemma sample_zone_request:
  "zone_request (sample_env zs st) ''tok'' ''example.com'' =
     \<lparr>Method = ''GET'', URL = ''https://dns.hetzner.com/api/v1/zones?name=example.com'',
      Header = [(''Auth-API-Token'', ''tok'')], Body = None\<rparr>"
  by (simp add: zone_request_def sample_env_def)

lemma sample_hetzner_getAllRecords:
  "hetzner_getAllRecords (sample_env [\<lparr>zone_ID = ''z1'', zone_TTL = 300\<rparr>] st) ''tok'' ''example.com'' [] =
     (Return [\<lparr>ID = ''r1'', Type = ''TXT'', Name = ''www'', Value = ''v'', TTL = 300 * Second\<rparr>] None,
      [\<lparr>Method = ''GET'', URL = ''https://dns.hetzner.com/api/v1/zones?name=example.com'',
        Header = [(''Auth-API-Token'', ''tok'')], Body = None\<rparr>,
       \<lparr>Method = ''GET'', URL = ''https://dns.hetzner.com/api/v1/records?zone_id=z1'',
        Header = [(''Auth-API-Token'', ''tok'')], Body = None\<rparr>])"
  by (simp add: hetzner_getAllRecords_def sample_getZoneData)
     (simp add: hetzner_doRequest_def sample_env_def NewRequestWithContext_def
        inbound_Record_def sample_record_def seconds_to_Duration_def)

section \<open>Claims about the TTL translation\<close>

text \<open>
  C5. For every input record, the TTL in the payload of a Vercel create request equals
  \<open>max t 60\<close>, where \<open>t\<close> is the caller's TTL in whole seconds, \<^verbatim>\<open>int(r.TTL.Seconds())\<close>;
  for a TTL of \<open>t\<close> whole seconds this is \<open>max t 60\<close> of that \<open>t\<close>, so 10 seconds give 60
  and 300 seconds give 300. Whenever the payload can be marshalled and the request can be
  built, \<open>createRecord\<close> sends exactly one request, the \<^verbatim>\<open>POST\<close> whose body is that
  marshalled payload; in no case does it send anything else.
\<close>

theorem vercel_createRecord_ttl_floor:
  "vercel_TTL (vercel_reqData zone r) = word_of_int (max (trunc (Seconds (TTL r))) 60) \<and>
   (\<bar>t\<bar> \<le> 9223372036 \<and> TTL r = word_of_int t * Second \<longrightarrow>
      vercel_TTL (vercel_reqData zone r) = word_of_int (max t 60)) \<and>
   (Marshal_VercelRecord env (vercel_reqData zone r) = Inr buf \<and>
    NewRequest_error env ''POST''
      (''https://api.vercel.com/v2/domains/'' @ zone @ ''/records'') = None \<longrightarrow>
      issued sent (vercel_createRecord env token zone r sent) =
        [\<lparr>Method = ''POST'', URL = ''https://api.vercel.com/v2/domains/'' @ zone @ ''/records'',
          Header = [(''Authorization'', ''Bearer '' @ token),
                    (''Content-Type'', ''application/json'')],
          Body = Some buf\<rparr>]) \<and>
   (issued sent (vercel_createRecord env token zone r sent) = [] \<or>
    (\<exists>buf. Marshal_VercelRecord env (vercel_reqData zone r) = Inr buf \<and>
       issued sent (vercel_createRecord env token zone r sent) =
         [\<lparr>Method = ''POST'', URL = ''https://api.vercel.com/v2/domains/'' @ zone @ ''/records'',
           Header = [(''Authorization'', ''Bearer '' @ token),
                     (''Content-Type'', ''application/json'')],
           Body = Some buf\<rparr>]))"
proof (intro conjI impI)
  show g: "vercel_TTL (vercel_reqData zone r) = word_of_int (max (trunc (Seconds (TTL r))) 60)"
    by (simp add: vercel_reqData_def float_to_int_def trunc_math_Max)
  show "issued sent (vercel_createRecord env token zone r sent) = [] \<or>
    (\<exists>buf. Marshal_VercelRecord env (vercel_reqData zone r) = Inr buf \<and>
       issued sent (vercel_createRecord env token zone r sent) =
         [\<lparr>Method = ''POST'', URL = ''https://api.vercel.com/v2/domains/'' @ zone @ ''/records'',
           Header = [(''Authorization'', ''Bearer '' @ token),
                     (''Content-Type'', ''application/json'')],
           Body = Some buf\<rparr>])"
    using vercel_createRecord_issued [of sent env token zone r] by blast
  {
    assume "\<bar>t\<bar> \<le> 9223372036 \<and> TTL r = word_of_int t * Second"
    then have "Seconds (TTL r) = of_int t"
      by (simp add: Seconds_whole)
    moreover have "trunc (of_int t) = t"
      by (simp add: trunc_def)
    ultimately show "vercel_TTL (vercel_reqData zone r) = word_of_int (max t 60)"
      by (simp only: g)
  }
  {
    assume "Marshal_VercelRecord env (vercel_reqData zone r) = Inr buf \<and>
      NewRequest_error env ''POST''
        (''https://api.vercel.com/v2/domains/'' @ zone @ ''/records'') = None"
    then show "issued sent (vercel_createRecord env token zone r sent) =
        [\<lparr>Method = ''POST'', URL = ''https://api.vercel.com/v2/domains/'' @ zone @ ''/records'',
          Header = [(''Authorization'', ''Bearer '' @ token),
                    (''Content-Type'', ''application/json'')],
          Body = Some buf\<rparr>]"
      using vercel_createRecord_request [of env zone r buf sent token] by blast
  }
qed

theorem vercel_createRecord_ttl_floor_witness:
  "\<bar>10 :: int\<bar> \<le> 9223372036 \<and>
   TTL (sample_Record [] (10 * Second)) = word_of_int 10 * Second \<and>
   vercel_TTL (vercel_reqData ''example.com'' (sample_Record [] (10 * Second))) = 60 \<and>
   Marshal_VercelRecord sample_env_ttl
     (vercel_reqData ''example.com'' (sample_Record [] (10 * Second))) = Inr ''ttl=60'' \<and>
   NewRequest_error sample_env_ttl ''POST''
     (''https://api.vercel.com/v2/domains/'' @ ''example.com'' @ ''/records'') = None \<and>
   issued [] (vercel_createRecord sample_env_ttl ''tok'' ''example.com''
       (sample_Record [] (10 * Second)) []) =
     [\<lparr>Method = ''POST'', URL = ''https://api.vercel.com/v2/domains/example.com/records'',
       Header = [(''Authorization'', ''Bearer tok''), (''Content-Type'', ''application/json'')],
       Body = Some ''ttl=60''\<rparr>] \<and>
   \<bar>300 :: int\<bar> \<le> 9223372036 \<and>
   TTL (sample_Record [] (300 * Second)) = word_of_int 300 * Second \<and>
   vercel_TTL (vercel_reqData ''example.com'' (sample_Record [] (300 * Second))) = 300 \<and>
   Marshal_VercelRecord sample_env_ttl
     (vercel_reqData ''example.com'' (sample_Record [] (300 * Second))) = Inr ''ttl=300'' \<and>
   issued [] (vercel_createRecord sample_env_ttl ''tok'' ''example.com''
       (sample_Record [] (300 * Second)) []) =
     [\<lparr>Method = ''POST'', URL = ''https://api.vercel.com/v2/domains/example.com/records'',
       Header = [(''Authorization'', ''Bearer tok''), (''Content-Type'', ''application/json'')],
       Body = Some ''ttl=300''\<rparr>]"
proof -
  let ?r10 = "sample_Record [] (10 * Second)"
  let ?r300 = "sample_Record [] (300 * Second)"
  have a: "\<bar>10 :: int\<bar> \<le> 9223372036 \<and> TTL ?r10 = word_of_int 10 * Second"
    by (simp add: sample_Record_def)
  have b: "\<bar>300 :: int\<bar> \<le> 9223372036 \<and> TTL ?r300 = word_of_int 300 * Second"
    by (simp add: sample_Record_def)
  note i10 = vercel_createRecord_ttl_floor [where zone = "''example.com''" and r = ?r10 and t = 10
      and env = sample_env_ttl and buf = "''ttl=60''" and sent = "[]" and token = "''tok''"]
  note i300 = vercel_createRecord_ttl_floor [where zone = "''example.com''" and r = ?r300 and t = 300
      and env = sample_env_ttl and buf = "''ttl=300''" and sent = "[]" and token = "''tok''"]
  from a i10 have "vercel_TTL (vercel_reqData ''example.com'' ?r10) = word_of_int (max 10 60)"
    by blast
  then have 1: "vercel_TTL (vercel_reqData ''example.com'' ?r10) = 60"
    by simp
  from b i300 have "vercel_TTL (vercel_reqData ''example.com'' ?r300) = word_of_int (max 300 60)"
    by blast
  then have 2: "vercel_TTL (vercel_reqData ''example.com'' ?r300) = 300"
    by simp
  have n: "NewRequest_error sample_env_ttl ''POST''
      (''https://api.vercel.com/v2/domains/'' @ ''example.com'' @ ''/records'') = None"
    by (simp add: sample_env_ttl_def sample_env_def)
  have m10: "Marshal_VercelRecord sample_env_ttl (vercel_reqData ''example.com'' ?r10)
      = Inr ''ttl=60''"
    by (simp add: sample_env_ttl_def sample_Marshal_ttl_def 1)
  have m300: "Marshal_VercelRecord sample_env_ttl (vercel_reqData ''example.com'' ?r300)
      = Inr ''ttl=300''"
    by (simp add: sample_env_ttl_def sample_Marshal_ttl_def 2)
  from m10 n i10 have "issued [] (vercel_createRecord sample_env_ttl ''tok'' ''example.com'' ?r10 []) =
     [\<lparr>Method = ''POST'', URL = ''https://api.vercel.com/v2/domains/'' @ ''example.com'' @ ''/records'',
       Header = [(''Authorization'', ''Bearer '' @ ''tok''), (''Content-Type'', ''application/json'')],
       Body = Some ''ttl=60''\<rparr>]"
    by blast
  then have 3: "issued [] (vercel_createRecord sample_env_ttl ''tok'' ''example.com'' ?r10 []) =
     [\<lparr>Method = ''POST'', URL = ''https://api.vercel.com/v2/domains/example.com/records'',
       Header = [(''Authorization'', ''Bearer tok''), (''Content-Type'', ''application/json'')],
       Body = Some ''ttl=60''\<rparr>]"
    by simp
  from m300 n i300 have "issued [] (vercel_createRecord sample_env_ttl ''tok'' ''example.com'' ?r300 []) =
     [\<lparr>Method = ''POST'', URL = ''https://api.vercel.com/v2/domains/'' @ ''example.com'' @ ''/records'',
       Header = [(''Authorization'', ''Bearer '' @ ''tok''), (''Content-Type'', ''application/json'')],
       Body = Some ''ttl=300''\<rparr>]"
    by blast
  then have 4: "issued [] (vercel_createRecord sample_env_ttl ''tok'' ''example.com'' ?r300 []) =
     [\<lparr>Method = ''POST'', URL = ''https://api.vercel.com/v2/domains/example.com/records'',
       Header = [(''Authorization'', ''Bearer tok''), (''Content-Type'', ''application/json'')],
       Body = Some ''ttl=300''\<rparr>]"
    by simp
  from a b 1 2 n m10 m300 3 4 show ?thesis
    by blast
qed

text \<open>
  C4. The Hetzner TTL translation is asymmetric. Outbound, the payload of \<open>createRecord\<close>
  and \<open>updateRecord\<close> always has its ttl field present, equal to the caller's TTL
  converted to whole seconds, \<^verbatim>\<open>int(r.TTL.Seconds())\<close>, also when that is zero and
  whatever the zone's default is; this payload is what the \<^verbatim>\<open>POST\<close> and the \<^verbatim>\<open>PUT\<close>
  request carry. Inbound, a wire record without TTL gets the zone's default TTL, and a wire
  record with a TTL (3600, say) keeps it whatever the zone's default; \<open>getAllRecords\<close>
  translates every listed record this way, with the zone it has resolved.
\<close>

theorem hetzner_ttl_translation:
  "record_TTL (outbound_record zoneData zone r) = Some (float_to_int (Seconds (TTL r))) \<and>
   record_TTL (outbound_record zoneData zone (r\<lparr>TTL := 0\<rparr>)) = Some 0 \<and>
   (\<bar>t\<bar> \<le> 9223372036 \<and> TTL r = word_of_int t * Second \<longrightarrow>
      record_TTL (outbound_record zoneData zone r) = Some (word_of_int t)) \<and>
   (zone_listing env token zone sent result \<and> Zones result = [zoneData] \<and>
    Marshal_record env (outbound_record zoneData zone r) = Inr buf \<and>
    NewRequest_error env ''POST'' ''https://dns.hetzner.com/api/v1/records'' = None \<longrightarrow>
      snd (hetzner_createRecord env token zone r sent) =
        sent @ [zone_request env token zone,
                \<lparr>Method = ''POST'', URL = ''https://dns.hetzner.com/api/v1/records'',
                 Header = [(''Auth-API-Token'', token)], Body = Some buf\<rparr>]) \<and>
   (zone_listing env token zone sent result \<and> Zones result = [zoneData] \<and>
    Marshal_record env (outbound_record zoneData zone r) = Inr buf \<and>
    NewRequest_error env ''PUT'' (''https://dns.hetzner.com/api/v1/records/'' @ ID r) = None \<longrightarrow>
      snd (hetzner_updateRecord env token zone r sent) =
        sent @ [zone_request env token zone,
                \<lparr>Method = ''PUT'', URL = ''https://dns.hetzner.com/api/v1/records/'' @ ID r,
                 Header = [(''Auth-API-Token'', token)], Body = Some buf\<rparr>]) \<and>
   TTL (inbound_Record zoneData (w\<lparr>record_TTL := None\<rparr>)) = seconds_to_Duration (zone_TTL zoneData) \<and>
   TTL (inbound_Record zoneData (w\<lparr>record_TTL := Some ttl\<rparr>)) = seconds_to_Duration ttl \<and>
   TTL (inbound_Record zoneData (w\<lparr>record_TTL := Some 3600\<rparr>)) = 3600 * Second \<and>
   (getZoneData env token zone sent = (Return zoneData None, sent') \<and>
    hetzner_getAllRecords env token zone sent = (Return recs None, sent'') \<longrightarrow>
      (\<exists>data listed. Unmarshal_getAllRecordsResponse env data = Inr listed \<and>
         recs = map (inbound_Record zoneData) (Records listed)))"
proof (intro conjI impI)
  show o: "record_TTL (outbound_record zoneData zone r) = Some (float_to_int (Seconds (TTL r)))"
    by (rule outbound_record_TTL)
  show "record_TTL (outbound_record zoneData zone (r\<lparr>TTL := 0\<rparr>)) = Some 0"
    by (simp add: outbound_record_TTL Seconds_zero float_to_int_def trunc_def)
  show "TTL (inbound_Record zoneData (w\<lparr>record_TTL := None\<rparr>)) = seconds_to_Duration (zone_TTL zoneData)"
    by (simp add: inbound_Record_TTL)
  show "TTL (inbound_Record zoneData (w\<lparr>record_TTL := Some ttl\<rparr>)) = seconds_to_Duration ttl"
    by (simp add: inbound_Record_TTL)
  show "TTL (inbound_Record zoneData (w\<lparr>record_TTL := Some 3600\<rparr>)) = 3600 * Second"
    by (simp add: inbound_Record_TTL seconds_to_Duration_def)
  {
    assume "\<bar>t\<bar> \<le> 9223372036 \<and> TTL r = word_of_int t * Second"
    then have "Seconds (TTL r) = of_int t"
      by (simp add: Seconds_whole)
    moreover have "trunc (of_int t) = t"
      by (simp add: trunc_def)
    ultimately show "record_TTL (outbound_record zoneData zone r) = Some (word_of_int t)"
      by (simp only: o float_to_int_def)
  }
  {
    assume "zone_listing env token zone sent result \<and> Zones result = [zoneData] \<and>
      Marshal_record env (outbound_record zoneData zone r) = Inr buf \<and>
      NewRequest_error env ''POST'' ''https://dns.hetzner.com/api/v1/records'' = None"
    then show "snd (hetzner_createRecord env token zone r sent) =
        sent @ [zone_request env token zone,
                \<lparr>Method = ''POST'', URL = ''https://dns.hetzner.com/api/v1/records'',
                 Header = [(''Auth-API-Token'', token)], Body = Some buf\<rparr>]"
      using hetzner_createRecord_request [of env token zone sent result zoneData r buf]
      by blast
  }
  {
    assume "zone_listing env token zone sent result \<and> Zones result = [zoneData] \<and>
      Marshal_record env (outbound_record zoneData zone r) = Inr buf \<and>
      NewRequest_error env ''PUT'' (''https://dns.hetzner.com/api/v1/records/'' @ ID r) = None"
    then show "snd (hetzner_updateRecord env token zone r sent) =
        sent @ [zone_request env token zone,
                \<lparr>Method = ''PUT'', URL = ''https://dns.hetzner.com/api/v1/records/'' @ ID r,
                 Header = [(''Auth-API-Token'', token)], Body = Some buf\<rparr>]"
      using hetzner_updateRecord_request [of env token zone sent result zoneData r buf]
      by blast
  }
  {
    assume "getZoneData env token zone sent = (Return zoneData None, sent') \<and>
      hetzner_getAllRecords env token zone sent = (Return recs None, sent'')"
    then show "\<exists>data listed. Unmarshal_getAllRecordsResponse env data = Inr listed \<and>
         recs = map (inbound_Record zoneData) (Records listed)"
      using hetzner_getAllRecords_success [of env token zone sent zoneData sent' recs sent'']
      by blast
  }
qed

theorem hetzner_ttl_translation_witness:
  "\<bar>0 :: int\<bar> \<le> 9223372036 \<and>
   TTL (sample_Record ''r1'' 0) = word_of_int 0 * Second \<and>
   record_TTL (outbound_record \<lparr>zone_ID = ''z1'', zone_TTL = 300\<rparr> ''example.com''
      (sample_Record ''r1'' 0)) = Some 0 \<and>
   zone_listing (sample_env [\<lparr>zone_ID = ''z1'', zone_TTL = 300\<rparr>] 200) ''tok'' ''example.com'' []
      \<lparr>Zones = [\<lparr>zone_ID = ''z1'', zone_TTL = 300\<rparr>]\<rparr> \<and>
   Marshal_record (sample_env [\<lparr>zone_ID = ''z1'', zone_TTL = 300\<rparr>] 200)
      (outbound_record \<lparr>zone_ID = ''z1'', zone_TTL = 300\<rparr> ''example.com'' (sample_Record ''r1'' 0))
      = Inr ''{}'' \<and>
   NewRequest_error (sample_env [\<lparr>zone_ID = ''z1'', zone_TTL = 300\<rparr>] 200) ''POST''
      ''https://dns.hetzner.com/api/v1/records'' = None \<and>
   NewRequest_error (sample_env [\<lparr>zone_ID = ''z1'', zone_TTL = 300\<rparr>] 200) ''PUT''
      (''https://dns.hetzner.com/api/v1/records/'' @ ID (sample_Record ''r1'' 0)) = None \<and>
   map Method (snd (hetzner_createRecord (sample_env [\<lparr>zone_ID = ''z1'', zone_TTL = 300\<rparr>] 200)
      ''tok'' ''example.com'' (sample_Record ''r1'' 0) [])) = [''GET'', ''POST''] \<and>
   map Method (snd (hetzner_updateRecord (sample_env [\<lparr>zone_ID = ''z1'', zone_TTL = 300\<rparr>] 200)
      ''tok'' ''example.com'' (sample_Record ''r1'' 0) [])) = [''GET'', ''PUT''] \<and>
   fst (getZoneData (sample_env [\<lparr>zone_ID = ''z1'', zone_TTL = 300\<rparr>] 200) ''tok'' ''example.com'' [])
      = Return \<lparr>zone_ID = ''z1'', zone_TTL = 300\<rparr> None \<and>
   fst (hetzner_getAllRecords (sample_env [\<lparr>zone_ID = ''z1'', zone_TTL = 300\<rparr>] 200)
      ''tok'' ''example.com'' [])
      = Return [\<lparr>ID = ''r1'', Type = ''TXT'', Name = ''www'', Value = ''v'', TTL = 300 * Second\<rparr>] None \<and>
   (\<exists>data listed.
      Unmarshal_getAllRecordsResponse (sample_env [\<lparr>zone_ID = ''z1'', zone_TTL = 300\<rparr>] 200) data
        = Inr listed \<and>
      [\<lparr>ID = ''r1'', Type = ''TXT'', Name = ''www'', Value = ''v'', TTL = 300 * Second\<rparr>]
        = map (inbound_Record \<lparr>zone_ID = ''z1'', zone_TTL = 300\<rparr>) (Records listed))"
proof -
  let ?z = "\<lparr>zone_ID = ''z1'', zone_TTL = 300\<rparr>"
  let ?env = "sample_env [?z] 200"
  let ?r = "sample_Record ''r1'' 0"
  let ?zreq = "\<lparr>Method = ''GET'', URL = ''https://dns.hetzner.com/api/v1/zones?name=example.com'',
        Header = [(''Auth-API-Token'', ''tok'')], Body = None\<rparr>"
  let ?lreq = "\<lparr>Method = ''GET'', URL = ''https://dns.hetzner.com/api/v1/records?zone_id=z1'',
        Header = [(''Auth-API-Token'', ''tok'')], Body = None\<rparr>"
  let ?rec = "\<lparr>ID = ''r1'', Type = ''TXT'', Name = ''www'', Value = ''v'', TTL = 300 * Second\<rparr>"
  note inst = hetzner_ttl_translation [where zoneData = ?z and zone = "''example.com''" and r = ?r
      and t = 0 and env = ?env and token = "''tok''" and sent = "[]" and result = "\<lparr>Zones = [?z]\<rparr>"
      and buf = "''{}''" and w = sample_record and ttl = 3600 and sent' = "[?zreq]" and recs = "[?rec]" and sent'' = "[?zreq, ?lreq]"]
  have t: "\<bar>0 :: int\<bar> \<le> 9223372036 \<and> TTL ?r = word_of_int 0 * Second"
    by (simp add: sample_Record_def)
  have l: "zone_listing ?env ''tok'' ''example.com'' [] \<lparr>Zones = [?z]\<rparr>"
    by (rule sample_zone_listing)
  have z: "Zones \<lparr>Zones = [?z]\<rparr> = [?z]"
    by simp
  have m: "Marshal_record ?env (outbound_record ?z ''example.com'' ?r) = Inr ''{}''"
    by (simp add: sample_env_def)
  have n1: "NewRequest_error ?env ''POST'' ''https://dns.hetzner.com/api/v1/records'' = None"
    by (simp add: sample_env_def)
  have n2: "NewRequest_error ?env ''PUT'' (''https://dns.hetzner.com/api/v1/records/'' @ ID ?r) = None"
    by (simp add: sample_env_def)
  have g: "getZoneData ?env ''tok'' ''example.com'' [] = (Return ?z None, [?zreq])"
    by (rule sample_getZoneData)
  have a: "hetzner_getAllRecords ?env ''tok'' ''example.com'' [] = (Return [?rec] None, [?zreq, ?lreq])"
    by (rule sample_hetzner_getAllRecords)
  have q: "zone_request ?env ''tok'' ''example.com'' = ?zreq"
    by (rule sample_zone_request)
  from inst t have "record_TTL (outbound_record ?z ''example.com'' ?r) = Some (word_of_int 0)"
    by blast
  then have 1: "record_TTL (outbound_record ?z ''example.com'' ?r) = Some 0"
    by simp
  from inst l z m n1 have 2: "snd (hetzner_createRecord ?env ''tok'' ''example.com'' ?r []) =
      [] @ [zone_request ?env ''tok'' ''example.com'',
            \<lparr>Method = ''POST'', URL = ''https://dns.hetzner.com/api/v1/records'',
             Header = [(''Auth-API-Token'', ''tok'')], Body = Some ''{}''\<rparr>]"
    by blast
  from inst l z m n2 have 3: "snd (hetzner_updateRecord ?env ''tok'' ''example.com'' ?r []) =
      [] @ [zone_request ?env ''tok'' ''example.com'',
            \<lparr>Method = ''PUT'', URL = ''https://dns.hetzner.com/api/v1/records/'' @ ID ?r,
             Header = [(''Auth-API-Token'', ''tok'')], Body = Some ''{}''\<rparr>]"
    by blast
  from inst g a have 4: "\<exists>data listed.
      Unmarshal_getAllRecordsResponse ?env data = Inr listed \<and>
      [?rec] = map (inbound_Record ?z) (Records listed)"
    by blast
  have 5: "map Method (snd (hetzner_createRecord ?env ''tok'' ''example.com'' ?r [])) = [''GET'', ''POST'']"
    by (simp add: 2 q)
  have 6: "map Method (snd (hetzner_updateRecord ?env ''tok'' ''example.com'' ?r [])) = [''GET'', ''PUT'']"
    by (simp add: 3 q)
  have 7: "fst (getZoneData ?env ''tok'' ''example.com'' []) = Return ?z None"
    by (simp add: g)
  have 8: "fst (hetzner_getAllRecords ?env ''tok'' ''example.com'' []) = Return [?rec] None"
    by (simp add: a)
  from t 1 l m n1 n2 5 6 7 8 4 show ?thesis
    by blast
qed

end
